theory Spec2Isabelle
  imports Main "HOL-Library.Word" "HOL-Library.Sublist"
begin

section \<open>JavaScript values\<close>

text \<open>
  The SDK is dynamically typed. The values that reach the code under study are
  \<^verbatim>\<open>undefined\<close>, \<^verbatim>\<open>null\<close>, booleans, numbers, strings and plain objects;
  an object is the list of its own properties in insertion order. The numbers are the
  non-negative safe integers (below \<open>2 ^ 53\<close>): status codes and the constants of the
  SDK are among them, and JavaScript prints every one of them as its plain decimal digits. Strings are
  \<^typ>\<open>string\<close>, one \<^typ>\<open>char\<close> per code unit below 256.
\<close>

datatype jsval =
    JUndefined
  | JNull
  | JBool bool
  | JNum "53 word"
  | JStr string
  | JObj "(string \<times> jsval) list"

text \<open>Truthiness, as tested by \<^verbatim>\<open>||\<close>, \<^verbatim>\<open>!\<close> and \<^verbatim>\<open>if\<close>.\<close>

fun truthy :: "jsval \<Rightarrow> bool" where
  "truthy JUndefined = False"
| "truthy JNull = False"
| "truthy (JBool b) = b"
| "truthy (JNum n) = (n \<noteq> 0)"
| "truthy (JStr s) = (s \<noteq> [])"
| "truthy (JObj kvs) = True"

text \<open>\<^verbatim>\<open>a || b\<close>\<close>

definition js_or :: "jsval \<Rightarrow> jsval \<Rightarrow> jsval" where
  "js_or a b = (if truthy a then a else b)"

text \<open>Reading an own property; a missing one reads as \<^verbatim>\<open>undefined\<close>.\<close>

fun own_prop :: "(string \<times> jsval) list \<Rightarrow> string \<Rightarrow> jsval" where
  "own_prop [] k = JUndefined"
| "own_prop ((k', v) # kvs) k = (if k' = k then v else own_prop kvs k)"

fun nullish :: "jsval \<Rightarrow> bool" where
  "nullish JUndefined = True"
| "nullish JNull = True"
| "nullish v = False"

text \<open>
  \<^verbatim>\<open>v?.k\<close>: \<^verbatim>\<open>undefined\<close> on \<^verbatim>\<open>undefined\<close> and \<^verbatim>\<open>null\<close>. The property names read
  by the SDK are not members of any primitive wrapper, so a primitive yields \<^verbatim>\<open>undefined\<close>.
\<close>

fun opt_chain :: "jsval \<Rightarrow> string \<Rightarrow> jsval" where
  "opt_chain (JObj kvs) k = own_prop kvs k"
| "opt_chain v k = JUndefined"

definition digit_char :: "nat \<Rightarrow> char" where
  "digit_char n = ''0123456789abcdef'' ! n"

fun decimal :: "nat \<Rightarrow> string" where
  "decimal n = (if n < 10 then [digit_char n] else decimal (n div 10) @ [digit_char (n mod 10)])"

declare decimal.simps [simp del]

definition number_to_string :: "53 word \<Rightarrow> string" where
  "number_to_string n = decimal (unat n)"

text \<open>\<^verbatim>\<open>String(v)\<close>, the conversion \<^verbatim>\<open>new Error(v)\<close> applies to its message.\<close>

fun ToString :: "jsval \<Rightarrow> string" where
  "ToString JUndefined = ''undefined''"
| "ToString JNull = ''null''"
| "ToString (JBool b) = (if b then ''true'' else ''false'')"
| "ToString (JNum n) = number_to_string n"
| "ToString (JStr s) = s"
| "ToString (JObj kvs) = ''[object Object]''"

section \<open>Errors\<close>

text \<open>
  A thrown \<^verbatim>\<open>Error\<close> object: its constructor name, its message and the two
  properties the dispatch primitive may attach (\<^verbatim>\<open>undefined\<close> when never assigned).
\<close>

record js_error =
  name :: string
  message :: string
  statusCode :: jsval
  responseData :: jsval

definition Error :: "string \<Rightarrow> js_error" where
  "Error msg = \<lparr>name = ''Error'', message = msg, statusCode = JUndefined, responseData = JUndefined\<rparr>"

definition TypeError :: "string \<Rightarrow> js_error" where
  "TypeError msg = \<lparr>name = ''TypeError'', message = msg, statusCode = JUndefined, responseData = JUndefined\<rparr>"

definition ReferenceError :: "string \<Rightarrow> js_error" where
  "ReferenceError msg = \<lparr>name = ''ReferenceError'', message = msg, statusCode = JUndefined, responseData = JUndefined\<rparr>"

text \<open>Sequencing of computations that may throw.\<close>

definition and_then :: "'e + 'a \<Rightarrow> ('a \<Rightarrow> 'e + 'b) \<Rightarrow> 'e + 'b" where
  "and_then r f = (case r of Inl e \<Rightarrow> Inl e | Inr v \<Rightarrow> f v)"

text \<open>
  \<^verbatim>\<open>v.k\<close> and \<^verbatim>\<open>v[k]\<close> without optional chaining: a \<^verbatim>\<open>TypeError\<close> on \<^verbatim>\<open>undefined\<close>
  and \<^verbatim>\<open>null\<close>.
\<close>

definition member :: "jsval \<Rightarrow> string \<Rightarrow> js_error + jsval" where
  "member v k =
     (if nullish v
      then Inl (TypeError (''Cannot read properties of '' @ ToString v @ '' (reading ''
                 @ [CHR 0x27] @ k @ [CHR 0x27] @ '')''))
      else Inr (opt_chain v k))"

section \<open>String and buffer primitives\<close>

text \<open>\<^verbatim>\<open>s.replace(pat, rep)\<close> with a string pattern: the first occurrence only.\<close>

fun replace :: "string \<Rightarrow> string \<Rightarrow> string \<Rightarrow> string" where
  "replace [] pat rep = (if pat = [] then rep else [])"
| "replace (c # cs) pat rep =
     (if prefix pat (c # cs) then rep @ drop (length pat) (c # cs)
      else c # replace cs pat rep)"

text \<open>\<^verbatim>\<open>s.substr(start, len)\<close> and \<^verbatim>\<open>s.substr(start)\<close>; only strings have the method.\<close>

definition substr :: "jsval \<Rightarrow> nat \<Rightarrow> nat option \<Rightarrow> js_error + jsval" where
  "substr v start len =
     (case v of
        JStr s \<Rightarrow> Inr (JStr (case len of None \<Rightarrow> drop start s | Some n \<Rightarrow> take n (drop start s)))
      | _ \<Rightarrow> Inl (TypeError ''ip.substr is not a function''))"

text \<open>\<^verbatim>\<open>s.toLowerCase()\<close> on code units below 256.\<close>

definition to_lower :: "char \<Rightarrow> char" where
  "to_lower c =
     (case map_of (zip ''ABCDEFGHIJKLMNOPQRSTUVWXYZ'' ''abcdefghijklmnopqrstuvwxyz'') c of
        Some l \<Rightarrow> l
      | None \<Rightarrow>
          (let n = (of_char c :: nat)
           in if 192 \<le> n \<and> n \<le> 222 \<and> n \<noteq> 215 then char_of (n + 32) else c))"

definition toLowerCase :: "string \<Rightarrow> string" where
  "toLowerCase s = map to_lower s"

text \<open>White space and line terminators removed by \<^verbatim>\<open>trim\<close> (those below 256).\<close>

definition is_white_space :: "char \<Rightarrow> bool" where
  "is_white_space c \<longleftrightarrow> c \<in> set [CHR 0x09, CHR 0x0A, CHR 0x0B, CHR 0x0C, CHR 0x0D, CHR 0x20, CHR 0xA0]"

definition trim :: "string \<Rightarrow> string" where
  "trim s = rev (dropWhile is_white_space (rev (dropWhile is_white_space s)))"

text \<open>\<^verbatim>\<open>JSON.stringify\<close>: string quoting.\<close>

definition hex2 :: "nat \<Rightarrow> string" where
  "hex2 n = [digit_char (n div 16 mod 16), digit_char (n mod 16)]"

definition quote_char :: "char \<Rightarrow> string" where
  "quote_char c =
     (if c = CHR 0x22 then [CHR 0x5C, CHR 0x22]
      else if c = CHR 0x5C then [CHR 0x5C, CHR 0x5C]
      else if c = CHR 0x08 then [CHR 0x5C, CHR ''b'']
      else if c = CHR 0x0C then [CHR 0x5C, CHR ''f'']
      else if c = CHR 0x0A then [CHR 0x5C, CHR ''n'']
      else if c = CHR 0x0D then [CHR 0x5C, CHR ''r'']
      else if c = CHR 0x09 then [CHR 0x5C, CHR ''t'']
      else if (of_char c :: nat) < 32 then [CHR 0x5C, CHR ''u'', CHR ''0'', CHR ''0''] @ hex2 (of_char c)
      else [c])"

definition quote :: "string \<Rightarrow> string" where
  "quote s = [CHR 0x22] @ concat (map quote_char s) @ [CHR 0x22]"

fun join_comma :: "string list \<Rightarrow> string" where
  "join_comma [] = []"
| "join_comma [x] = x"
| "join_comma (x # y # ys) = x @ '','' @ join_comma (y # ys)"

text \<open>
  \<^verbatim>\<open>JSON.stringify(v)\<close>. The result is \<^verbatim>\<open>undefined\<close> (\<^const>\<open>None\<close>) for \<^verbatim>\<open>undefined\<close>;
  inside an object a property whose value is \<^verbatim>\<open>undefined\<close> is left out.
\<close>

fun JSON_stringify :: "jsval \<Rightarrow> string option"
  and stringify_members :: "(string \<times> jsval) list \<Rightarrow> string list" where
  "JSON_stringify JUndefined = None"
| "JSON_stringify JNull = Some ''null''"
| "JSON_stringify (JBool b) = Some (if b then ''true'' else ''false'')"
| "JSON_stringify (JNum n) = Some (number_to_string n)"
| "JSON_stringify (JStr s) = Some (quote s)"
| "JSON_stringify (JObj kvs) = Some (''{'' @ join_comma (stringify_members kvs) @ ''}'')"
| "stringify_members [] = []"
| "stringify_members ((k, v) # kvs) =
     (case JSON_stringify v of
        None \<Rightarrow> stringify_members kvs
      | Some t \<Rightarrow> (quote k @ '':'' @ t) # stringify_members kvs)"

text \<open>\<^verbatim>\<open>Buffer.from(s)\<close>: the UTF-8 bytes of a string.\<close>

definition utf8_char :: "char \<Rightarrow> 8 word list" where
  "utf8_char c =
     (let n = (of_char c :: nat)
      in if n < 128 then [of_nat n] else [of_nat (192 + n div 64), of_nat (128 + n mod 64)])"

definition utf8 :: "string \<Rightarrow> 8 word list" where
  "utf8 s = concat (map utf8_char s)"

definition Buffer_from_undefined_message :: string where
  "Buffer_from_undefined_message =
     ''The first argument must be of type string or an instance of Buffer, ArrayBuffer, or Array or an Array-like Object. Received undefined''"

definition Buffer_from :: "string option \<Rightarrow> string + 8 word list" where
  "Buffer_from s = (case s of None \<Rightarrow> Inl Buffer_from_undefined_message | Some t \<Rightarrow> Inr (utf8 t))"

text \<open>\<^verbatim>\<open>buf.toString('base64')\<close>: standard base64 with padding.\<close>

definition b64_alphabet :: string where
  "b64_alphabet = ''ABCDEFGHIJKLMNOPQRSTUVWXYZabcdefghijklmnopqrstuvwxyz0123456789+/''"

definition b64_char :: "nat \<Rightarrow> char" where
  "b64_char n = b64_alphabet ! (n mod 64)"

fun toString_base64 :: "8 word list \<Rightarrow> string" where
  "toString_base64 [] = []"
| "toString_base64 [a] =
     (let n = unat a * 65536
      in [b64_char (n div 262144), b64_char (n div 4096), CHR ''='', CHR ''=''])"
| "toString_base64 [a, b] =
     (let n = unat a * 65536 + unat b * 256
      in [b64_char (n div 262144), b64_char (n div 4096), b64_char (n div 64), CHR ''=''])"
| "toString_base64 (a # b # c # bs) =
     (let n = unat a * 65536 + unat b * 256 + unat c
      in [b64_char (n div 262144), b64_char (n div 4096), b64_char (n div 64), b64_char n])
     @ toString_base64 bs"

text \<open>
  The decoder of RFC 4648, section 4, against which the encoder is checked: four
  characters of the alphabet carry 24 bits, that is three bytes, and one or two padding
  characters end a group of two or one bytes.
\<close>

definition b64_index :: "char \<Rightarrow> nat option" where
  "b64_index c = map_of (zip b64_alphabet [0..<64]) c"

definition sextets_value :: "nat \<Rightarrow> nat \<Rightarrow> nat \<Rightarrow> nat \<Rightarrow> nat" where
  "sextets_value s1 s2 s3 s4 = s1 * 262144 + s2 * 4096 + s3 * 64 + s4"

definition byte_of :: "nat \<Rightarrow> nat \<Rightarrow> 8 word" where
  "byte_of n i = of_nat (n div 256 ^ i mod 256)"

fun base64_decode :: "string \<Rightarrow> 8 word list option" where
  "base64_decode (c1 # c2 # c3 # c4 # rest) =
     (case (b64_index c1, b64_index c2) of
        (Some s1, Some s2) \<Rightarrow>
          (if rest = [] \<and> c3 = CHR ''='' \<and> c4 = CHR ''=''
           then Some [byte_of (sextets_value s1 s2 0 0) 2]
           else case b64_index c3 of
                  Some s3 \<Rightarrow>
                    (if rest = [] \<and> c4 = CHR ''=''
                     then Some [byte_of (sextets_value s1 s2 s3 0) 2, byte_of (sextets_value s1 s2 s3 0) 1]
                     else case b64_index c4 of
                            Some s4 \<Rightarrow>
                              map_option (\<lambda>bs. byte_of (sextets_value s1 s2 s3 s4) 2
                                                # byte_of (sextets_value s1 s2 s3 s4) 1
                                                # byte_of (sextets_value s1 s2 s3 s4) 0 # bs)
                                (base64_decode rest)
                          | None \<Rightarrow> None)
                | None \<Rightarrow> None)
      | _ \<Rightarrow> None)"
| "base64_decode [] = Some []"
| "base64_decode _ = None"

section \<open>The file system and the crypto library\<close>

text \<open>
  A path either names nothing, or an entry that can be read as text, or an entry
  that exists but cannot be read (a directory, a file without permission).
\<close>

datatype fs_entry = Readable string | Unreadable

type_synonym filesystem = "string \<rightharpoonup> fs_entry"

definition existsSync :: "filesystem \<Rightarrow> string \<Rightarrow> bool" where
  "existsSync fs p = (fs p \<noteq> None)"

definition readFileSync :: "filesystem \<Rightarrow> string \<Rightarrow> unit + string" where
  "readFileSync fs p = (case fs p of Some (Readable txt) \<Rightarrow> Inr txt | _ \<Rightarrow> Inl ())"

text \<open>
  \<^verbatim>\<open>crypto.publicEncrypt({key, padding}, buffer)\<close> belongs to the platform, not to the
  SDK: it is a parameter of the model. It returns the ciphertext or throws with a message.
\<close>

datatype padding = RSA_PKCS1_PADDING | RSA_PKCS1_OAEP_PADDING | RSA_NO_PADDING

type_synonym publicEncrypt = "string \<Rightarrow> padding \<Rightarrow> 8 word list \<Rightarrow> string + 8 word list"

text \<open>
  What the library does for a key it accepts under PKCS#1 v1.5 padding, with \<open>k\<close> the
  size of the modulus in bytes (RFC 8017, section 7.2.1): a message of at most \<open>k - 11\<close>
  bytes gives a ciphertext of \<open>k\<close> bytes, a longer one is refused. This is the meaning
  given to "a valid key of \<open>8 * k\<close> bits".
\<close>

definition pkcs1_v15 :: "publicEncrypt \<Rightarrow> string \<Rightarrow> nat \<Rightarrow> bool" where
  "pkcs1_v15 pe key k \<longleftrightarrow>
     (\<forall>m. (length m + 11 \<le> k \<longrightarrow> (\<exists>c. pe key RSA_PKCS1_PADDING m = Inr c \<and> length c = k))
        \<and> (k < length m + 11 \<longrightarrow> (\<exists>e. pe key RSA_PKCS1_PADDING m = Inl e)))"

text \<open>The class of characters \<^verbatim>\<open>[A-Za-z0-9+/=]\<close>.\<close>

definition is_base64_char :: "char \<Rightarrow> bool" where
  "is_base64_char c =
     (let n = (of_char c :: nat)
      in (65 \<le> n \<and> n \<le> 90) \<or> (97 \<le> n \<and> n \<le> 122) \<or> (48 \<le> n \<and> n \<le> 57)
         \<or> n = 43 \<or> n = 47 \<or> n = 61)"

section \<open>CardEncryptor\<close>

text \<open>
  \<^verbatim>\<open>src/unnamed/part_002\<close> and \<^verbatim>\<open>src/unnamed/part_001\<close> (lines 358 to 418) hold the
  same code of \<^verbatim>\<open>CardEncryptor\<close> (they differ in comments only), so one model serves both.
  The file system and the crypto primitive are parameters.
\<close>

record CardEncryptor =
  publicKeyPath :: string

definition CardEncryptor_constructor :: "filesystem \<Rightarrow> string \<Rightarrow> js_error + CardEncryptor" where
  "CardEncryptor_constructor fs path =
     (if \<not> existsSync fs path then Inl (Error (''Public key file not found: '' @ path))
      else Inr \<lparr>publicKeyPath = path\<rparr>)"

definition encrypt :: "filesystem \<Rightarrow> publicEncrypt \<Rightarrow> CardEncryptor \<Rightarrow> jsval \<Rightarrow> js_error + string" where
  "encrypt fs pe this cardParams =
     (case readFileSync fs (publicKeyPath this) of
        Inl _ \<Rightarrow> Inl (Error (''Failed to read public key file: '' @ publicKeyPath this))
      | Inr txt \<Rightarrow>
          (let publicKey = trim (replace txt ''RSA'' '''');
               cardJson = JSON_stringify cardParams
           in case Buffer_from cardJson of
                Inl m \<Rightarrow> Inl (Error (''Encryption failed: '' @ m))
              | Inr buffer \<Rightarrow>
                  (case pe publicKey RSA_PKCS1_PADDING buffer of
                     Inl m \<Rightarrow> Inl (Error (''Encryption failed: '' @ m))
                   | Inr encrypted \<Rightarrow> Inr (toString_base64 encrypted))))"

section \<open>Browser details, device, payer device DTO\<close>

record BrowserDetails =
  challengeWindowSize :: jsval
  acceptHeaders :: jsval
  colorDepth :: jsval
  javaEnabled :: jsval
  language :: jsval
  screenHeight :: jsval
  screenWidth :: jsval
  timeZone :: jsval

text \<open>
  The sources hold two copies of the request-derived classes. The copies that open with
  an author comment (\<^verbatim>\<open>src/Types/BrowserDetails.js\<close>, \<^verbatim>\<open>Device\<close> at lines 55 to 95 of
  \<^verbatim>\<open>src/unnamed/part_005\<close>, \<^verbatim>\<open>src/unnamed/part_003\<close>) go together and keep the plain
  names; the others (\<^verbatim>\<open>BrowserDetails\<close> at lines 1 to 53 and \<^verbatim>\<open>Device\<close> at lines 97 to
  124 of \<^verbatim>\<open>src/unnamed/part_005\<close>, \<^verbatim>\<open>src/unnamed/part_004\<close>) carry a suffix. A request
  is any value; reading a property of \<^verbatim>\<open>undefined\<close> throws.
\<close>

text \<open>\<^verbatim>\<open>src/Types/BrowserDetails.js\<close>: the language is the constant \<^verbatim>\<open>en-US\<close>.\<close>

definition BrowserDetails_fromRequest :: "jsval \<Rightarrow> js_error + BrowserDetails" where
  "BrowserDetails_fromRequest request =
     and_then (member request ''headers'') (\<lambda>h.
       let headers = js_or h (JObj [])
       in and_then (member headers ''accept'') (\<lambda>accept.
            Inr \<lparr>challengeWindowSize = JStr ''FULL_SCREEN'',
                 acceptHeaders = js_or accept (JStr ''application/json''),
                 colorDepth = JNum 24,
                 javaEnabled = JBool True,
                 language = JStr ''en-US'',
                 screenHeight = JNum 473,
                 screenWidth = JNum 1600,
                 timeZone = JNum 273\<rparr>))"

text \<open>The other copy of \<^verbatim>\<open>BrowserDetails\<close> reads the language from \<^verbatim>\<open>accept-language\<close>.\<close>

definition BrowserDetails_fromRequest_acceptLanguage :: "jsval \<Rightarrow> js_error + BrowserDetails" where
  "BrowserDetails_fromRequest_acceptLanguage request =
     and_then (member request ''headers'') (\<lambda>h.
       let headers = js_or h (JObj [])
       in and_then (member headers ''accept-language'') (\<lambda>al.
            let acceptLanguage = js_or al (JStr ''en-US'')
            in and_then (member headers ''accept'') (\<lambda>accept.
                 Inr \<lparr>challengeWindowSize = JStr ''FULL_SCREEN'',
                      acceptHeaders = js_or accept (JStr ''application/json''),
                      colorDepth = JNum 24,
                      javaEnabled = JBool True,
                      language = acceptLanguage,
                      screenHeight = JNum 473,
                      screenWidth = JNum 1600,
                      timeZone = JNum 273\<rparr>)))"

definition BrowserDetails_toArray :: "BrowserDetails \<Rightarrow> jsval" where
  "BrowserDetails_toArray this =
     JObj [(''3DSecureChallengeWindowSize'', challengeWindowSize this),
           (''acceptHeaders'', acceptHeaders this),
           (''colorDepth'', colorDepth this),
           (''javaEnabled'', javaEnabled this),
           (''language'', language this),
           (''screenHeight'', screenHeight this),
           (''screenWidth'', screenWidth this),
           (''timeZone'', timeZone this)]"

record Device =
  browser :: jsval
  browserDetails :: BrowserDetails
  ipAddress :: jsval

text \<open>
  The constructor destructures \<^verbatim>\<open>{ browser, browserDetails, ipAddress }\<close> from its
  argument object; a property the argument lacks is \<^verbatim>\<open>undefined\<close>. The argument is
  given as the list of its scalar properties and the browser details.
\<close>

definition Device_constructor :: "(string \<times> jsval) list \<Rightarrow> BrowserDetails \<Rightarrow> Device" where
  "Device_constructor props bd =
     \<lparr>browser = own_prop props ''browser'', browserDetails = bd, ipAddress = own_prop props ''ipAddress''\<rparr>"

text \<open>
  \<^verbatim>\<open>Device.fromRequest\<close>, lines 72 to 84 of \<^verbatim>\<open>src/unnamed/part_005\<close>: the address is
  \<^verbatim>\<open>request.ip || request.headers['x-forwarded-for'] || '127.0.0.1'\<close>, and a leading
  \<^verbatim>\<open>::ffff:\<close> is cut off.
\<close>

definition Device_fromRequest :: "jsval \<Rightarrow> js_error + Device" where
  "Device_fromRequest request =
     and_then (member request ''ip'') (\<lambda>rip.
     and_then (if truthy rip then Inr rip
               else and_then (member request ''headers'') (\<lambda>h.
                    and_then (member h ''x-forwarded-for'') (\<lambda>xff.
                      Inr (js_or xff (JStr ''127.0.0.1''))))) (\<lambda>ip0.
     and_then (substr ip0 0 (Some 7)) (\<lambda>pre.
     and_then (if pre = JStr ''::ffff:'' then substr ip0 7 None else Inr ip0) (\<lambda>ip.
     and_then (member request ''headers'') (\<lambda>h.
     and_then (member h ''user-agent'') (\<lambda>ua.
       let browser = js_or ua (JStr ''Unknown'');
           ipAddress = ip
       in and_then (BrowserDetails_fromRequest request) (\<lambda>browserDetails.
            Inr (Device_constructor [(''browser'', browser), (''ipAddress'', ipAddress)] browserDetails))))))))"

text \<open>
  \<^verbatim>\<open>Device.fromRequest\<close>, lines 107 to 113 of \<^verbatim>\<open>src/unnamed/part_005\<close>: the address is
  \<^verbatim>\<open>request.ip || request.connection.remoteAddress || '127.0.0.1'\<close>, and the constructor
  receives \<^verbatim>\<open>{userAgent, browserDetails, ipAddress}\<close>.
\<close>

definition Device_fromRequest_remoteAddress :: "jsval \<Rightarrow> js_error + Device" where
  "Device_fromRequest_remoteAddress request =
     and_then (member request ''headers'') (\<lambda>h.
     and_then (member h ''user-agent'') (\<lambda>ua.
       let userAgent = js_or ua (JStr ''Unknown'')
       in and_then (member request ''ip'') (\<lambda>rip.
          and_then (if truthy rip then Inr rip
                    else and_then (member request ''connection'') (\<lambda>c.
                         and_then (member c ''remoteAddress'') (\<lambda>ra.
                           Inr (js_or ra (JStr ''127.0.0.1''))))) (\<lambda>ipAddress.
          and_then (BrowserDetails_fromRequest_acceptLanguage request) (\<lambda>browserDetails.
            Inr (Device_constructor [(''userAgent'', userAgent), (''ipAddress'', ipAddress)] browserDetails))))))"

definition Device_toArray :: "Device \<Rightarrow> jsval" where
  "Device_toArray this =
     JObj [(''browser'', browser this),
           (''browserDetails'', BrowserDetails_toArray (browserDetails this)),
           (''ipAddress'', ipAddress this)]"

record PayerDeviceDto =
  device :: Device

definition PayerDeviceDto_fromRequest :: "jsval \<Rightarrow> js_error + PayerDeviceDto" where
  "PayerDeviceDto_fromRequest request =
     and_then (Device_fromRequest request) (\<lambda>d. Inr \<lparr>device = d\<rparr>)"

definition PayerDeviceDto_fromRequest_remoteAddress :: "jsval \<Rightarrow> js_error + PayerDeviceDto" where
  "PayerDeviceDto_fromRequest_remoteAddress request =
     and_then (Device_fromRequest_remoteAddress request) (\<lambda>d. Inr \<lparr>device = d\<rparr>)"

definition PayerDeviceDto_toArray :: "PayerDeviceDto \<Rightarrow> jsval" where
  "PayerDeviceDto_toArray this =
     JObj [(''payerDeviceDto'', JObj [(''device'', Device_toArray (device this))])]"

text \<open>The own properties of the class instances, as a request body sees them.\<close>

definition BrowserDetails_properties :: "BrowserDetails \<Rightarrow> jsval" where
  "BrowserDetails_properties this =
     JObj [(''challengeWindowSize'', challengeWindowSize this),
           (''acceptHeaders'', acceptHeaders this),
           (''colorDepth'', colorDepth this),
           (''javaEnabled'', javaEnabled this),
           (''language'', language this),
           (''screenHeight'', screenHeight this),
           (''screenWidth'', screenWidth this),
           (''timeZone'', timeZone this)]"

definition Device_properties :: "Device \<Rightarrow> jsval" where
  "Device_properties this =
     JObj [(''browser'', browser this),
           (''browserDetails'', BrowserDetails_properties (browserDetails this)),
           (''ipAddress'', ipAddress this)]"

definition PayerDeviceDto_properties :: "PayerDeviceDto \<Rightarrow> jsval" where
  "PayerDeviceDto_properties this = JObj [(''device'', Device_properties (device this))]"

section \<open>The HTTP client library\<close>

record http_response =
  resp_status :: "53 word"
  resp_data :: jsval

text \<open>What the network does with one request: an HTTP response, or no response at all.\<close>

datatype transport_result = HttpResponse http_response | NoResponse string

datatype https_agent = Agent bool

record axios_config =
  axios_baseURL :: string
  axios_headers :: "(string \<times> string) list"
  axios_httpsAgent :: "https_agent option"

text \<open>
  The error object a \<^verbatim>\<open>catch\<close> receives: its message and, for an HTTP error status,
  the response.
\<close>

record caught_error =
  error_message :: string
  error_response :: "http_response option"

text \<open>
  What awaiting a call on the client gives: a value, of which \<^verbatim>\<open>#makeRequest\<close> reads the
  \<^verbatim>\<open>data\<close> property only (\<^const>\<open>resp_data\<close>), or an error that is caught.
\<close>

datatype outcome = Resolved http_response | Rejected caught_error

text \<open>
  axios resolves a response whose status passes the default \<^verbatim>\<open>validateStatus\<close>
  (200 to 299) and rejects every other one with an error that carries the response; a
  request that got no response is rejected with an error without one.
\<close>

definition settle :: "transport_result \<Rightarrow> outcome" where
  "settle t =
     (case t of
        HttpResponse r \<Rightarrow>
          (if 200 \<le> resp_status r \<and> resp_status r < 300 then Resolved r
           else Rejected \<lparr>error_message = ''Request failed with status code '' @ number_to_string (resp_status r),
                          error_response = Some r\<rparr>)
      | NoResponse m \<Rightarrow> Rejected \<lparr>error_message = m, error_response = None\<rparr>)"

type_synonym axios_instance = "string \<Rightarrow> (string \<Rightarrow> jsval \<Rightarrow> outcome) option"

text \<open>
  The platform behind the client, a parameter of the model. \<open>transport\<close> is what the
  network does with a call of one of the request methods (configuration, method name,
  path, second argument). \<open>inherited_member\<close> stands for every other member of the
  instance reachable under a lower-case name: the instance is a function object, and
  members such as \<^verbatim>\<open>bind\<close>, \<^verbatim>\<open>call\<close> and \<^verbatim>\<open>apply\<close> can be called too; \<^const>\<open>None\<close> is a
  member that is absent or not callable.
\<close>

record network =
  transport :: "axios_config \<Rightarrow> string \<Rightarrow> string \<Rightarrow> jsval \<Rightarrow> transport_result"
  inherited_member :: "axios_config \<Rightarrow> string \<Rightarrow> (string \<Rightarrow> jsval \<Rightarrow> outcome) option"

definition axios_verbs :: "string list" where
  "axios_verbs = [''request'', ''delete'', ''get'', ''head'', ''options'', ''post'', ''put'', ''patch'']"

definition axios_create :: "network \<Rightarrow> axios_config \<Rightarrow> axios_instance" where
  "axios_create net cfg verb =
     (if verb \<in> set axios_verbs then Some (\<lambda>url body. settle (transport net cfg verb url body))
      else inherited_member net cfg verb)"

section \<open>The gateway client\<close>

text \<open>
  The effects of the client: the entries handed to the logger (level, message, metadata)
  and the calls made on the HTTP client (member name, path, second argument), both in
  order.
\<close>

record world =
  logged :: "(string \<times> string \<times> jsval) list"
  requests :: "(string \<times> string \<times> jsval) list"

definition logger :: "string \<Rightarrow> world \<Rightarrow> string \<Rightarrow> jsval \<Rightarrow> world" where
  "logger level w msg meta = w\<lparr>logged := logged w @ [(level, msg, meta)]\<rparr>"

record config =
  config_baseURL :: string
  config_secretKey :: string
  config_verifySsl :: jsval

record ErcasPay =
  baseURL :: string
  secretKey :: string
  client :: "axios_instance option"

record ErcasPay_verifySsl = ErcasPay +
  verifySsl :: jsval

definition default_headers :: "string \<Rightarrow> (string \<times> string) list" where
  "default_headers key =
     [(''Authorization'', ''Bearer '' @ key), (''Accept'', ''application/json''),
      (''Content-Type'', ''application/json'')]"

text \<open>
  The logger (the one supplied, or the default file logger) is taken to accept every
  entry; the configuration object is given by its three scalar properties, with
  \<^verbatim>\<open>undefined\<close> for an omitted \<^verbatim>\<open>verifySsl\<close>.
\<close>

subsection \<open>The client without a TLS switch (\<^verbatim>\<open>src/unnamed/part_001\<close>)\<close>

definition initializeClient :: "network \<Rightarrow> ErcasPay \<Rightarrow> world \<Rightarrow> (js_error + ErcasPay) \<times> world" where
  "initializeClient net this w =
     (let w1 = logger ''debug'' w ''Initiallizing axios client'' (JObj [(''baseURL'', JStr (baseURL this))]);
          this1 = this\<lparr>client := Some (axios_create net
                    \<lparr>axios_baseURL = baseURL this, axios_headers = default_headers (secretKey this),
                     axios_httpsAgent = None\<rparr>)\<rparr>
      in (Inr this1, logger ''debug'' w1 ''Initiallized axios client successfully'' JUndefined))"

definition ErcasPay_constructor :: "network \<Rightarrow> world \<Rightarrow> config \<Rightarrow> (js_error + ErcasPay) \<times> world" where
  "ErcasPay_constructor net w cfg =
     initializeClient net \<lparr>baseURL = config_baseURL cfg, secretKey = config_secretKey cfg, client = None\<rparr> w"

text \<open>
  The first statement of the \<^verbatim>\<open>try\<close> block, \<^verbatim>\<open>this.client[method.toLowerCase()](relativeUrl, data)\<close>.
  A \<^verbatim>\<open>TypeError\<close> thrown while evaluating it is caught like a rejection without response.
\<close>

definition call_client ::
  "'a ErcasPay_scheme \<Rightarrow> world \<Rightarrow> string \<Rightarrow> jsval \<Rightarrow> jsval \<Rightarrow> outcome \<times> world" where
  "call_client this w relativeUrl method body =
     (case method of
        JStr m \<Rightarrow>
          (case client this of
             None \<Rightarrow> (Rejected \<lparr>error_message = ''Cannot read properties of null (reading '' @ [CHR 0x27] @ toLowerCase m @ [CHR 0x27] @ '')'',
                                error_response = None\<rparr>, w)
           | Some c \<Rightarrow>
               (case c (toLowerCase m) of
                  None \<Rightarrow> (Rejected \<lparr>error_message = ''this.client[method.toLowerCase(...)] is not a function'',
                                     error_response = None\<rparr>, w)
                | Some f \<Rightarrow> (f relativeUrl body, w\<lparr>requests := requests w @ [(toLowerCase m, relativeUrl, body)]\<rparr>)))
      | _ \<Rightarrow> (Rejected \<lparr>error_message = ''method.toLowerCase is not a function'', error_response = None\<rparr>, w))"

definition makeRequest ::
  "'a ErcasPay_scheme \<Rightarrow> world \<Rightarrow> string \<Rightarrow> jsval \<Rightarrow> jsval \<Rightarrow> (js_error + jsval) \<times> world" where
  "makeRequest this w relativeUrl method data_arg =
     (let body = (if data_arg = JUndefined then JObj [] else data_arg);
          w1 = logger ''debug'' w ''Making API request'' (JObj [(''url'', JStr relativeUrl), (''method'', method)])
      in if \<not> truthy method
         then (Inl (Error ''Method cannot be empty''),
               logger ''error'' w1 ''Method cannot be empty when calling makeRequest'' JUndefined)
         else
           (case call_client this w1 relativeUrl method body of
              (Resolved response, w2) \<Rightarrow>
                (Inr (resp_data response), logger ''debug'' w2 ''API request successful'' JUndefined)
            | (Rejected error, w2) \<Rightarrow>
                (case error_response error of
                   Some r \<Rightarrow>
                     (let w3 = logger ''error'' w2 ''API error response''
                                 (JObj [(''data'', resp_data r), (''status'', JNum (resp_status r))]);
                          err = Error (ToString (js_or (opt_chain (resp_data r) ''errorMessage'')
                                  (JStr (''An error occurred while calling the Ercaspay API on path: '' @ relativeUrl))))
                      in (Inl (err\<lparr>statusCode := JNum (resp_status r), responseData := resp_data r\<rparr>), w3))
                 | None \<Rightarrow>
                     (let w3 = logger ''error'' w2 ''API request error'' (JStr (error_message error));
                          err = Error (ToString (js_or (JStr (error_message error))
                                  (JStr (''An unexpected error occurred while making the API request on path: '' @ relativeUrl))))
                      in (Inl (err\<lparr>statusCode := JNum 500, responseData := JNull\<rparr>), w3)))))"

subsection \<open>The client with the \<^verbatim>\<open>verifySsl\<close> switch (\<^verbatim>\<open>src/unnamed/part_000\<close>)\<close>

text \<open>
  The identifiers bound at the top of that file; \<^verbatim>\<open>https\<close> is not among them, and it is
  not a global of the platform, so evaluating it throws a \<^verbatim>\<open>ReferenceError\<close>.
\<close>

definition module_bindings :: "string list" where
  "module_bindings = [''axios'', ''winston'', ''CardEncryptor'', ''PayerDeviceDto'']"

definition resolve_identifier :: "string \<Rightarrow> js_error + unit" where
  "resolve_identifier x = (if x \<in> set module_bindings then Inr () else Inl (ReferenceError (x @ '' is not defined'')))"

definition initializeClient_verifySsl ::
  "network \<Rightarrow> ErcasPay_verifySsl \<Rightarrow> world \<Rightarrow> (js_error + ErcasPay_verifySsl) \<times> world" where
  "initializeClient_verifySsl net this w =
     (let w1 = logger ''info'' w ''Initiallizing axios client''
                 (JObj [(''baseURL'', JStr (baseURL this)), (''verifySsl'', verifySsl this)])
      in case (if truthy (verifySsl this) then Inr None
               else and_then (resolve_identifier ''https'') (\<lambda>_. Inr (Some (Agent False)))) of
           Inl e \<Rightarrow> (Inl e, w1)
         | Inr httpsAgent \<Rightarrow>
             (let this1 = this\<lparr>client := Some (axios_create net
                       \<lparr>axios_baseURL = baseURL this, axios_headers = default_headers (secretKey this),
                        axios_httpsAgent = httpsAgent\<rparr>)\<rparr>
              in (Inr this1, logger ''info'' w1 ''Initiallized axios client successfully'' JUndefined)))"

definition ErcasPay_constructor_verifySsl ::
  "network \<Rightarrow> world \<Rightarrow> config \<Rightarrow> (js_error + ErcasPay_verifySsl) \<times> world" where
  "ErcasPay_constructor_verifySsl net w cfg =
     initializeClient_verifySsl net
       \<lparr>baseURL = config_baseURL cfg, secretKey = config_secretKey cfg, client = None,
        verifySsl = (if config_verifySsl cfg = JUndefined then JBool True else config_verifySsl cfg)\<rparr> w"

definition makeRequest_verifySsl ::
  "'a ErcasPay_scheme \<Rightarrow> world \<Rightarrow> string \<Rightarrow> jsval \<Rightarrow> jsval \<Rightarrow> (js_error + jsval) \<times> world" where
  "makeRequest_verifySsl this w relativeUrl method data_arg =
     (let body = (if data_arg = JUndefined then JObj [] else data_arg);
          w1 = logger ''info'' w ''Making API request''
                 (JObj [(''url'', JStr relativeUrl), (''method'', method), (''data'', body)])
      in if \<not> truthy method
         then (Inl (Error ''Method cannot be empty''),
               logger ''error'' w1 ''Method cannot be empty when calling makeRequest'' JUndefined)
         else
           (case call_client this w1 relativeUrl method body of
              (Resolved response, w2) \<Rightarrow>
                (Inr (resp_data response), logger ''info'' w2 ''API request successful'' JUndefined)
            | (Rejected error, w2) \<Rightarrow>
                (case error_response error of
                   Some r \<Rightarrow>
                     (let w3 = logger ''error'' w2 ''API error response''
                                 (JObj [(''data'', resp_data r), (''status'', JNum (resp_status r))])
                      in case member (resp_data r) ''errorMessage'' of
                           Inl e \<Rightarrow> (Inl e, w3)
                         | Inr em \<Rightarrow>
                             (Inl (Error (ToString (js_or em
                                (JStr (''An error occurred while calling the Ercaspay API on path: '' @ relativeUrl))))), w3))
                 | None \<Rightarrow>
                     (let w3 = logger ''error'' w2 ''API request error'' (JStr (error_message error))
                      in (Inl (Error (ToString (js_or (JStr (error_message error))
                            (JStr (''An unexpected error occurred while making the API request on path: '' @ relativeUrl))))), w3)))))"

subsection \<open>The card transaction\<close>

text \<open>
  \<^verbatim>\<open>initiateCardTransaction\<close> destructures its argument object; \<open>dirname\<close> is the
  directory of the module. First the copy of \<^verbatim>\<open>src/unnamed/part_001\<close>, then the one of
  \<^verbatim>\<open>src/unnamed/part_000\<close>.
\<close>

definition initiateCardTransaction ::
  "filesystem \<Rightarrow> publicEncrypt \<Rightarrow> string \<Rightarrow> 'a ErcasPay_scheme \<Rightarrow> world \<Rightarrow> (string \<times> jsval) list
     \<Rightarrow> (js_error + jsval) \<times> world" where
  "initiateCardTransaction fs pe dirname this w params =
     (let request = own_prop params ''request'';
          transactionRef = own_prop params ''transactionRef'';
          cardNumber = own_prop params ''cardNumber'';
          cardExpiryMonth = own_prop params ''cardExpiryMonth'';
          cardExpiryYear = own_prop params ''cardExpiryYear'';
          cardCvv = own_prop params ''cardCvv'';
          pin = own_prop params ''pin'';
          w1 = logger ''debug'' w ''Initiating card transaction'' (JObj [(''transactionRef'', transactionRef)])
      in case PayerDeviceDto_fromRequest request of
           Inl e \<Rightarrow> (Inl e, w1)
         | Inr dto \<Rightarrow>
             (let deviceDetails = PayerDeviceDto_toArray dto;
                  w2 = logger ''debug'' w1 ''Device details captured'' deviceDetails
              in case and_then (CardEncryptor_constructor fs (dirname @ ''/key/rsa_public_key.pub''))
                        (\<lambda>encryptor. encrypt fs pe encryptor
                           (JObj [(''cvv'', cardCvv), (''pin'', pin),
                                  (''expiryDate'', JStr (ToString cardExpiryMonth @ ToString cardExpiryYear)),
                                  (''pan'', cardNumber)])) of
                   Inl e \<Rightarrow> (Inl e, w2)
                 | Inr encryptedCard \<Rightarrow>
                     (case makeRequest this w2 ''/api/v1/payment/cards/initialize'' (JStr ''POST'')
                             (JObj [(''transactionReference'', transactionRef),
                                    (''payload'', JStr encryptedCard),
                                    (''deviceDetails'', deviceDetails)]) of
                        (Inl e, w3) \<Rightarrow> (Inl e, w3)
                      | (Inr response, w3) \<Rightarrow>
                          (Inr response,
                           logger ''debug'' w3 ''Card transaction initiated successfully''
                             (JObj [(''transactionRef'', transactionRef)])))))"

definition initiateCardTransaction_verifySsl ::
  "filesystem \<Rightarrow> publicEncrypt \<Rightarrow> string \<Rightarrow> 'a ErcasPay_scheme \<Rightarrow> world \<Rightarrow> (string \<times> jsval) list
     \<Rightarrow> (js_error + jsval) \<times> world" where
  "initiateCardTransaction_verifySsl fs pe dirname this w params =
     (let request = own_prop params ''request'';
          transactionRef = own_prop params ''transactionRef'';
          cardNumber = own_prop params ''cardNumber'';
          cardExpiryMonth = own_prop params ''cardExpiryMonth'';
          cardExpiryYear = own_prop params ''cardExpiryYear'';
          cardCvv = own_prop params ''cardCvv'';
          pin = own_prop params ''pin'';
          w1 = logger ''info'' w ''Initiating card transaction'' (JObj [(''transactionRef'', transactionRef)])
      in case PayerDeviceDto_fromRequest_remoteAddress request of
           Inl e \<Rightarrow> (Inl e, w1)
         | Inr dto \<Rightarrow>
             (let deviceDetails = PayerDeviceDto_properties dto
              in case and_then (CardEncryptor_constructor fs (dirname @ ''/key/public_key.pem''))
                        (\<lambda>encryptor. encrypt fs pe encryptor
                           (JObj [(''cvv'', cardCvv), (''pin'', pin),
                                  (''expiryDate'', JStr (ToString cardExpiryMonth @ ToString cardExpiryYear)),
                                  (''pan'', cardNumber)])) of
                   Inl e \<Rightarrow> (Inl e, w1)
                 | Inr encryptedCard \<Rightarrow>
                     (case makeRequest_verifySsl this w1 ''/api/v1/payment/cards/initialize'' (JStr ''POST'')
                             (JObj [(''transactionReference'', transactionRef),
                                    (''payload'', JStr encryptedCard),
                                    (''deviceDetails'', deviceDetails)]) of
                        (Inl e, w2) \<Rightarrow> (Inl e, w2)
                      | (Inr response, w2) \<Rightarrow>
                          (Inr response,
                           logger ''info'' w2 ''Card transaction initiated successfully''
                             (JObj [(''response'', response)])))))"

section \<open>Sample inputs\<close>

text \<open>
  A stand-in for the crypto library, used at concrete inputs only: it accepts every key
  text, applies the PKCS#1 v1.5 encoding for a modulus of 256 bytes with constant padding
  bytes and leaves out the modular exponentiation.
\<close>

definition pkcs1_pad :: "8 word list \<Rightarrow> 8 word list" where
  "pkcs1_pad m = [0, 2] @ replicate (256 - 3 - length m) 255 @ [0] @ m"

definition pkcs1_encode :: publicEncrypt where
  "pkcs1_encode key pad m =
     (if length m + 11 \<le> 256 then Inr (pkcs1_pad m) else Inl ''data too large for key size'')"

text \<open>
  A second stand-in reads the key text the way a PEM parser does (RFC 7468): the first
  line is \<^verbatim>\<open>-----BEGIN <label>-----\<close>, the last one \<^verbatim>\<open>-----END <label>-----\<close> with the
  same label, and the label is \<^verbatim>\<open>PUBLIC KEY\<close> or \<^verbatim>\<open>RSA PUBLIC KEY\<close>; any other text is
  refused with the message of the decoder.
\<close>

fun split_lines :: "string \<Rightarrow> string list" where
  "split_lines [] = [[]]"
| "split_lines (c # cs) =
     (if c = CHR 0x0A then [] # split_lines cs
      else (case split_lines cs of [] \<Rightarrow> [[c]] | l # ls \<Rightarrow> (c # l) # ls))"

definition pem_label :: "string \<Rightarrow> string option" where
  "pem_label key =
     (case filter (\<lambda>l. l \<noteq> []) (split_lines key) of
        [] \<Rightarrow> None
      | first # rest \<Rightarrow>
          (let label = take (length first - 16) (drop 11 first)
           in if rest \<noteq> [] \<and> first = ''-----BEGIN '' @ label @ ''-----''
                 \<and> last rest = ''-----END '' @ label @ ''-----''
              then Some label else None))"

definition pem_pkcs1_encode :: publicEncrypt where
  "pem_pkcs1_encode key pad m =
     (if pem_label key \<notin> {Some ''PUBLIC KEY'', Some ''RSA PUBLIC KEY''}
      then Inl ''error:1E08010C:DECODER routines::unsupported''
      else if length m + 11 \<le> 256 then Inr (pkcs1_pad m)
      else Inl ''data too large for key size'')"

text \<open>
  The key of \<^verbatim>\<open>tests/CardEncryptor.test.js\<close> (2048 bits) as the test writes it to the
  file, and the same key in the RSA-marked form (PKCS#1, the \<^verbatim>\<open>SubjectPublicKeyInfo\<close>
  wrapper of 24 bytes taken off).
\<close>

definition test_key_pem :: string where
  "test_key_pem = [CHR 0x0A] @ ''    -----BEGIN PUBLIC KEY-----'' @ [CHR 0x0A]
     @ ''MIIBIjANBgkqhkiG9w0BAQEFAAOCAQ8AMIIBCgKCAQEAoLUWhs/7kVxZqJxJ1NEb'' @ [CHR 0x0A]
     @ ''1sZWpdmd4NL/iMhVpZ3cBPYhHwZEfP0MYDwh79NiInQpSZRDY2e9OrXDgZ30v+X7'' @ [CHR 0x0A]
     @ ''cUfhpP964qxvt5QeCd6VzFKCUsJeadsxaAVdrYOeFRqzoQKpytkS6Jt6ysvOfpGF'' @ [CHR 0x0A]
     @ ''rZ7ogV0XdlcYe2Scn7ptp35qcgk1lhN90bSq09M4NjO1tH7gP5FTW3faytAAda7O'' @ [CHR 0x0A]
     @ ''d/HWRuvMZNNqFh6nIQLmfzcxSfhe8rkJEX3v1ij8o94z/5nB8bqV0TDMh/uzIzyb'' @ [CHR 0x0A]
     @ ''ffCqGi52m/j3YsynUWeOLGHv6I+mofxeIdT7Sn/hfE63FWzLHljA+t3JhN+9gn1M'' @ [CHR 0x0A]
     @ ''DQIDAQAB'' @ [CHR 0x0A]
     @ ''-----END PUBLIC KEY-----'' @ [CHR 0x0A]"

definition test_key_rsa_pem :: string where
  "test_key_rsa_pem = ''-----BEGIN RSA PUBLIC KEY-----'' @ [CHR 0x0A]
     @ ''MIIBCgKCAQEAoLUWhs/7kVxZqJxJ1NEb1sZWpdmd4NL/iMhVpZ3cBPYhHwZEfP0M'' @ [CHR 0x0A]
     @ ''YDwh79NiInQpSZRDY2e9OrXDgZ30v+X7cUfhpP964qxvt5QeCd6VzFKCUsJeadsx'' @ [CHR 0x0A]
     @ ''aAVdrYOeFRqzoQKpytkS6Jt6ysvOfpGFrZ7ogV0XdlcYe2Scn7ptp35qcgk1lhN9'' @ [CHR 0x0A]
     @ ''0bSq09M4NjO1tH7gP5FTW3faytAAda7Od/HWRuvMZNNqFh6nIQLmfzcxSfhe8rkJ'' @ [CHR 0x0A]
     @ ''EX3v1ij8o94z/5nB8bqV0TDMh/uzIzybffCqGi52m/j3YsynUWeOLGHv6I+mofxe'' @ [CHR 0x0A]
     @ ''IdT7Sn/hfE63FWzLHljA+t3JhN+9gn1MDQIDAQAB'' @ [CHR 0x0A]
     @ ''-----END RSA PUBLIC KEY-----'' @ [CHR 0x0A]"

definition test_key_fs :: filesystem where
  "test_key_fs = [''/app/key/public_key.pem'' \<mapsto> Readable test_key_pem,
                  ''/app/key/rsa_public_key.pub'' \<mapsto> Readable test_key_rsa_pem]"

definition generic_pem :: string where
  "generic_pem = ''-----BEGIN PUBLIC KEY-----'' @ [CHR 0x0A]
     @ ''MIIBIjANBgkqhkiG9w0BAQEFAAOCAQ8AMIIBCgKCAQEAoLUWhs/7kVxZqJxJ1NEb'' @ [CHR 0x0A]
     @ ''-----END PUBLIC KEY-----'' @ [CHR 0x0A]"

definition rsa_marked_pem :: string where
  "rsa_marked_pem = ''-----BEGIN RSA PUBLIC KEY-----'' @ [CHR 0x0A]
     @ ''MIIBCgKCAQEAoLUWhs/7kVxZqJxJ1NEb1sZWpdmd4NL/iMhVpZ3cBPYhHwZEfP0M'' @ [CHR 0x0A]
     @ ''-----END RSA PUBLIC KEY-----'' @ [CHR 0x0A]"

definition rsa_marked_pem_normalized :: string where
  "rsa_marked_pem_normalized = ''-----BEGIN  PUBLIC KEY-----'' @ [CHR 0x0A]
     @ ''MIIBCgKCAQEAoLUWhs/7kVxZqJxJ1NEb1sZWpdmd4NL/iMhVpZ3cBPYhHwZEfP0M'' @ [CHR 0x0A]
     @ ''-----END RSA PUBLIC KEY-----''"

definition rsa_marked_pem_generic_form :: string where
  "rsa_marked_pem_generic_form = ''-----BEGIN PUBLIC KEY-----'' @ [CHR 0x0A]
     @ ''MIIBCgKCAQEAoLUWhs/7kVxZqJxJ1NEb1sZWpdmd4NL/iMhVpZ3cBPYhHwZEfP0M'' @ [CHR 0x0A]
     @ ''-----END PUBLIC KEY-----''"

definition generic_pem_RSA_in_body :: string where
  "generic_pem_RSA_in_body = ''-----BEGIN PUBLIC KEY-----'' @ [CHR 0x0A]
     @ ''MIIBIjANBgkqhkiG9w0BAQEFAAOCAQ8AMIIBCgKCAQEAoLUWhs/7kRSAqJxJ1NEb'' @ [CHR 0x0A]
     @ ''-----END PUBLIC KEY-----'' @ [CHR 0x0A]"

definition key_fs :: filesystem where
  "key_fs = [''/app/key/rsa_public_key.pub'' \<mapsto> Readable generic_pem,
             ''/app/key/public_key.pem'' \<mapsto> Readable generic_pem,
             ''/app/key/rsa_marked.pem'' \<mapsto> Readable rsa_marked_pem,
             ''/app/key'' \<mapsto> Unreadable]"

definition generic_encryptor :: CardEncryptor where
  "generic_encryptor = \<lparr>publicKeyPath = ''/app/key/rsa_public_key.pub''\<rparr>"

definition rsa_encryptor :: CardEncryptor where
  "rsa_encryptor = \<lparr>publicKeyPath = ''/app/key/rsa_marked.pem''\<rparr>"

definition visa_card :: jsval where
  "visa_card = JObj [(''cvv'', JStr ''123''), (''pin'', JStr ''1234''),
     (''expiryDate'', JStr ''1225''), (''pan'', JStr ''4111111111111111'')]"

definition visa_card_json :: string where
  \<open>visa_card_json = ''{"cvv":"123","pin":"1234","expiryDate":"1225","pan":"4111111111111111"}''\<close>

definition pan150 :: string where
  "pan150 = ''411111111111111141111111111111114111111111111111411111111111111141111111111111114111111111111111411111111111111141111111111111114111111111111111411111''"

definition pan210 :: string where
  "pan210 = pan150 @ ''411111111111111141111111111111114111111111111111411111111111''"

definition card150 :: jsval where
  "card150 = JObj [(''cvv'', JStr ''123''), (''pin'', JStr ''1234''),
     (''expiryDate'', JStr ''1225''), (''pan'', JStr pan150)]"

definition card150_json :: string where
  \<open>card150_json = ''{"cvv":"123","pin":"1234","expiryDate":"1225","pan":"'' @ pan150 @ ''"}''\<close>

definition card210 :: jsval where
  "card210 = JObj [(''cvv'', JStr ''123''), (''pin'', JStr ''1234''),
     (''expiryDate'', JStr ''1225''), (''pan'', JStr pan210)]"

definition card210_json :: string where
  \<open>card210_json = ''{"cvv":"123","pin":"1234","expiryDate":"1225","pan":"'' @ pan210 @ ''"}''\<close>

definition partial_card :: jsval where
  "partial_card = JObj [(''cvv'', JStr ''123''), (''pin'', JUndefined),
     (''expiryDate'', JStr ''1225''), (''pan'', JStr '''')]"

definition partial_card_json :: string where
  \<open>partial_card_json = ''{"cvv":"123","expiryDate":"1225","pan":""}''\<close>

definition mapped_request :: jsval where
  "mapped_request = JObj [(''ip'', JStr ''::ffff:203.0.113.5''),
     (''headers'', JObj [(''user-agent'', JStr ''Mozilla/5.0'')]),
     (''connection'', JObj [(''remoteAddress'', JStr ''::ffff:203.0.113.5'')])]"

definition bare_request :: jsval where
  "bare_request = JObj [(''headers'', JObj []), (''connection'', JObj [])]"

definition default_BrowserDetails :: BrowserDetails where
  "default_BrowserDetails =
     \<lparr>challengeWindowSize = JStr ''FULL_SCREEN'', acceptHeaders = JStr ''application/json'',
      colorDepth = JNum 24, javaEnabled = JBool True, language = JStr ''en-US'',
      screenHeight = JNum 473, screenWidth = JNum 1600, timeZone = JNum 273\<rparr>"

text \<open>
  A network: no response on one path, a 404 with an \<^verbatim>\<open>errorMessage\<close> on another, a 200
  everywhere else. Of the inherited members it has \<^verbatim>\<open>bind\<close>, whose result is a function
  (a value without \<^verbatim>\<open>data\<close>).
\<close>

definition sample_network :: network where
  "sample_network =
     \<lparr>transport = (\<lambda>cfg verb url body.
        if url = ''/down'' then NoResponse ''connect ECONNREFUSED 127.0.0.1:443''
        else if url = ''/api/v1/payment/transaction/verify/abc''
        then HttpResponse \<lparr>resp_status = 404, resp_data = JObj [(''errorMessage'', JStr ''Invalid reference'')]\<rparr>
        else HttpResponse \<lparr>resp_status = 200, resp_data = JObj [(''requestSuccessful'', JBool True)]\<rparr>),
      inherited_member = (\<lambda>cfg m.
        if m = ''bind'' then Some (\<lambda>url body. Resolved \<lparr>resp_status = 0, resp_data = JUndefined\<rparr>)
        else None)\<rparr>"

definition sample_config :: config where
  "sample_config = \<lparr>config_baseURL = ''https://api.merchant.staging.ercaspay.com'',
      config_secretKey = ''ECRS-TEST-SK'', config_verifySsl = JUndefined\<rparr>"

definition sample_axios_config :: axios_config where
  "sample_axios_config =
     \<lparr>axios_baseURL = ''https://api.merchant.staging.ercaspay.com'',
      axios_headers = default_headers ''ECRS-TEST-SK'', axios_httpsAgent = None\<rparr>"

definition sample_client :: ErcasPay where
  "sample_client = \<lparr>baseURL = ''https://api.merchant.staging.ercaspay.com'', secretKey = ''ECRS-TEST-SK'',
      client = Some (axios_create sample_network sample_axios_config)\<rparr>"

definition sample_client_verifySsl :: ErcasPay_verifySsl where
  "sample_client_verifySsl = \<lparr>baseURL = ''https://api.merchant.staging.ercaspay.com'',
      secretKey = ''ECRS-TEST-SK'',
      client = Some (axios_create sample_network sample_axios_config), verifySsl = JBool True\<rparr>"

definition world0 :: world where
  "world0 = \<lparr>logged = [], requests = []\<rparr>"

text \<open>The card transaction of the README, which names the PIN \<^verbatim>\<open>cardPin\<close>.\<close>

definition readme_params :: "(string \<times> jsval) list" where
  "readme_params =
     [(''request'', mapped_request),
      (''transactionRef'', JStr ''ERCS|20241214202721|1734204441927''),
      (''cardCvv'', JStr ''111''),
      (''cardNumber'', JStr ''252435456456756756756787865''),
      (''cardExpiryMonth'', JStr ''12''),
      (''cardExpiryYear'', JStr ''2025''),
      (''cardPin'', JStr ''1234'')]"

definition readme_card_json :: string where
  \<open>readme_card_json = ''{"cvv":"111","expiryDate":"122025","pan":"252435456456756756756787865"}''\<close>

text \<open>
  The address a request with properties \<open>props\<close> and headers \<open>hs\<close> resolves to in the
  copy of \<^verbatim>\<open>Device.fromRequest\<close> that reads \<^verbatim>\<open>x-forwarded-for\<close>.
\<close>

definition resolved_ip :: "(string \<times> jsval) list \<Rightarrow> (string \<times> jsval) list \<Rightarrow> jsval" where
  "resolved_ip props hs =
     (if truthy (own_prop props ''ip'') then own_prop props ''ip''
      else js_or (own_prop hs ''x-forwarded-for'') (JStr ''127.0.0.1''))"

text \<open>
  Characters that \<^verbatim>\<open>JSON.stringify\<close> writes as they are and UTF-8 encodes in one byte:
  printable ASCII other than the quotation mark and the backslash.
\<close>

definition plain_char :: "char \<Rightarrow> bool" where
  "plain_char c \<longleftrightarrow>
     32 \<le> (of_char c :: nat) \<and> (of_char c :: nat) < 128 \<and> c \<noteq> CHR 0x22 \<and> c \<noteq> CHR 0x5C"

section \<open>Properties of the card encryptor\<close>

subsection \<open>Base64 output\<close>

lemma length_b64_alphabet: "length b64_alphabet = 64"
  by (simp add: b64_alphabet_def)

lemma b64_alphabet_chars: "\<forall>c \<in> set b64_alphabet. is_base64_char c"
  by (simp add: b64_alphabet_def is_base64_char_def)

lemma b64_char_in_class: "is_base64_char (b64_char n)"
proof -
  have "n mod 64 < length b64_alphabet" by (simp add: length_b64_alphabet)
  then have "b64_char n \<in> set b64_alphabet" unfolding b64_char_def by (rule nth_mem)
  then show ?thesis using b64_alphabet_chars by blast
qed

lemma pad_char_in_class: "is_base64_char (CHR ''='')"
  by (simp add: is_base64_char_def)

lemma toString_base64_chars: "\<forall>c \<in> set (toString_base64 bs). is_base64_char c"
  by (induction bs rule: toString_base64.induct)
    (simp_all add: Let_def b64_char_in_class pad_char_in_class)

lemma length_toString_base64: "length (toString_base64 bs) = 4 * ((length bs + 2) div 3)"
proof (induction bs rule: toString_base64.induct)
  case (4 a b c bs)
  have "(length bs + 5) div 3 = Suc ((length bs + 2) div 3)" by arith
  with 4 show ?case by (simp add: Let_def add.commute)
qed (simp_all add: Let_def)

text \<open>The encoder on the test vectors of RFC 4648, section 10.\<close>

lemma rfc4648_vectors:
  "toString_base64 (utf8 '''') = ''''"
  "toString_base64 (utf8 ''f'') = ''Zg==''"
  "toString_base64 (utf8 ''fo'') = ''Zm8=''"
  "toString_base64 (utf8 ''foo'') = ''Zm9v''"
  "toString_base64 (utf8 ''foob'') = ''Zm9vYg==''"
  "toString_base64 (utf8 ''fooba'') = ''Zm9vYmE=''"
  "toString_base64 (utf8 ''foobar'') = ''Zm9vYmFy''"
  by (simp_all add: utf8_def utf8_char_def Let_def b64_char_def b64_alphabet_def)

text \<open>Decoding what \<^verbatim>\<open>toString('base64')\<close> gives returns the bytes.\<close>

lemma b64_index_char: "b64_index (b64_char n) = Some (n mod 64)"
proof -
  have d: "distinct b64_alphabet" by (simp add: b64_alphabet_def)
  have l: "length b64_alphabet = 64" by (simp add: b64_alphabet_def)
  have "n mod 64 < length (zip b64_alphabet [0..<64])" by (simp add: l)
  moreover have "distinct (map fst (zip b64_alphabet [0..<64]))" by (simp add: l d)
  ultimately have "map_of (zip b64_alphabet [0..<64]) (fst (zip b64_alphabet [0..<64] ! (n mod 64)))
        = Some (snd (zip b64_alphabet [0..<64] ! (n mod 64)))"
    by (metis map_of_is_SomeI nth_mem prod.collapse)
  then show ?thesis by (simp add: b64_index_def b64_char_def l)
qed

lemma b64_char_not_pad: "b64_char n \<noteq> CHR ''=''"
proof -
  have "n mod 64 < length b64_alphabet" by (simp add: b64_alphabet_def)
  then have "b64_char n \<in> set b64_alphabet" unfolding b64_char_def by (rule nth_mem)
  moreover have "CHR ''='' \<notin> set b64_alphabet" by (simp add: b64_alphabet_def)
  ultimately show ?thesis by auto
qed

lemma sextets_3:
  assumes "n < 16777216"
  shows "(n div 262144) mod 64 * 262144 + (n div 4096) mod 64 * 4096 + (n div 64) mod 64 * 64 + n mod 64 = (n::nat)"
proof -
  define q1 where "q1 = n div 64"
  define q2 where "q2 = q1 div 64"
  define q3 where "q3 = q2 div 64"
  have a: "n div 4096 = q2" unfolding q2_def q1_def by (simp add: div_mult2_eq [symmetric])
  have b: "n div 262144 = q3" unfolding q3_def q2_def q1_def by (simp add: div_mult2_eq [symmetric])
  have c: "q3 < 64" using assms unfolding b [symmetric] by simp
  have e1: "n = 64 * q1 + n mod 64" unfolding q1_def by simp
  have e2: "q1 = 64 * q2 + q1 mod 64" unfolding q2_def by simp
  have e3: "q2 = 64 * q3 + q2 mod 64" unfolding q3_def by simp
  have "q3 mod 64 * 262144 + q2 mod 64 * 4096 + q1 mod 64 * 64 + n mod 64 = n"
    using c e1 e2 e3 by simp
  then show ?thesis by (simp add: a b q1_def)
qed

lemma byte_bound: "unat (a :: 8 word) < 256"
  using unsigned_less [of a, where 'a = nat] by simp

lemma sextets_of_group:
  assumes "n < 16777216"
  shows "sextets_value (n div 262144 mod 64) (n div 4096 mod 64) (n div 64 mod 64) (n mod 64) = n"
  unfolding sextets_value_def by (rule sextets_3 [OF assms])

lemma bytes_of_group:
  assumes "x < 256" and "y < 256" and "z < 256"
  shows "byte_of (x * 65536 + y * 256 + z) 2 = of_nat x"
    and "byte_of (x * 65536 + y * 256 + z) 1 = of_nat y"
    and "byte_of (x * 65536 + y * 256 + z) 0 = of_nat z"
proof -
  have a: "(x * 65536 + y * 256 + z) div 65536 = x" using assms by simp
  have b: "(x * 65536 + y * 256 + z) div 256 = x * 256 + y" using assms by simp
  have c: "(x * 65536 + y * 256 + z) mod 256 = z"
  proof -
    have "x * 65536 + y * 256 + z = 256 * (x * 256 + y) + z" by simp
    then have "(x * 65536 + y * 256 + z) mod 256 = z mod 256" by (metis mod_mult_self4)
    then show ?thesis using assms by simp
  qed
  have p2: "(256::nat) ^ 2 = 65536" by simp
  show "byte_of (x * 65536 + y * 256 + z) 2 = of_nat x"
    unfolding byte_of_def p2 a using assms by simp
  show "byte_of (x * 65536 + y * 256 + z) 1 = of_nat y"
    unfolding byte_of_def power_one_right b using assms by simp
  show "byte_of (x * 65536 + y * 256 + z) 0 = of_nat z"
    unfolding byte_of_def using c by simp
qed

lemma decode_group:
  assumes "n < 16777216"
  shows "base64_decode (b64_char (n div 262144) # b64_char (n div 4096) # b64_char (n div 64) # b64_char n # rest)
           = map_option (\<lambda>bs. byte_of n 2 # byte_of n 1 # byte_of n 0 # bs) (base64_decode rest)"
  by (simp add: b64_index_char b64_char_not_pad sextets_of_group [OF assms])

lemma decode_pad1:
  assumes "n < 16777216" and "n mod 64 = 0"
  shows "base64_decode [b64_char (n div 262144), b64_char (n div 4096), b64_char (n div 64), CHR ''='']
           = Some [byte_of n 2, byte_of n 1]"
proof -
  have "sextets_value (n div 262144 mod 64) (n div 4096 mod 64) (n div 64 mod 64) 0 = n"
    using sextets_of_group [OF assms(1)] by (simp only: assms(2))
  then show ?thesis by (simp add: b64_index_char b64_char_not_pad)
qed

lemma decode_pad2:
  assumes "n < 16777216" and "n mod 64 = 0" and "n div 64 mod 64 = 0"
  shows "base64_decode [b64_char (n div 262144), b64_char (n div 4096), CHR ''='', CHR ''='']
           = Some [byte_of n 2]"
proof -
  have "sextets_value (n div 262144 mod 64) (n div 4096 mod 64) 0 0 = n"
    using sextets_of_group [OF assms(1)] by (simp only: assms(2,3))
  then show ?thesis by (simp add: b64_index_char)
qed

lemma low_sextets:
  "(x * 65536) mod 64 = (0::nat)" "(x * 65536) div 64 mod 64 = (0::nat)"
  "(x * 65536 + y * 256) mod 64 = (0::nat)"
proof -
  have a: "x * 65536 = 64 * (x * 1024)" by simp
  show "(x * 65536) mod 64 = 0" unfolding a by simp
  have b: "x * 65536 div 64 = 64 * (x * 16)" unfolding a by simp
  show "(x * 65536) div 64 mod 64 = 0" unfolding b by simp
  have c: "x * 65536 + y * 256 = 64 * (x * 1024 + y * 4)" by simp
  show "(x * 65536 + y * 256) mod 64 = 0" unfolding c by simp
qed

lemma base64_round_trip: "base64_decode (toString_base64 bs) = Some bs"
proof (induction bs rule: toString_base64.induct)
  case 1
  show ?case by simp
next
  case (2 a)
  have x: "unat a < 256" by (rule byte_bound)
  have n: "unat a * 65536 < 16777216" using x by simp
  have b: "byte_of (unat a * 65536) 2 = a"
    using bytes_of_group(1) [OF x, of 0 0] by simp
  have "base64_decode [b64_char (unat a * 65536 div 262144), b64_char (unat a * 65536 div 4096),
          CHR ''='', CHR ''=''] = Some [a]"
    unfolding decode_pad2 [OF n low_sextets(1) low_sextets(2)] b by (rule refl)
  then show ?case by (simp only: toString_base64.simps Let_def)
next
  case (3 a b)
  have x: "unat a < 256" and y: "unat b < 256" by (rule byte_bound)+
  have n: "unat a * 65536 + unat b * 256 < 16777216" using x y by simp
  have b1: "byte_of (unat a * 65536 + unat b * 256) 2 = a"
    using bytes_of_group(1) [OF x y, of 0] by simp
  have b2: "byte_of (unat a * 65536 + unat b * 256) 1 = b"
    using bytes_of_group(2) [OF x y, of 0] by simp
  have "base64_decode [b64_char ((unat a * 65536 + unat b * 256) div 262144),
          b64_char ((unat a * 65536 + unat b * 256) div 4096),
          b64_char ((unat a * 65536 + unat b * 256) div 64), CHR ''=''] = Some [a, b]"
    unfolding decode_pad1 [OF n low_sextets(3)] b1 b2 by (rule refl)
  then show ?case by (simp only: toString_base64.simps Let_def)
next
  case (4 a b c bs)
  have x: "unat a < 256" and y: "unat b < 256" and z: "unat c < 256" by (rule byte_bound)+
  have n: "unat a * 65536 + unat b * 256 + unat c < 16777216" using x y z by simp
  have bytes: "byte_of (unat a * 65536 + unat b * 256 + unat c) 2 = a"
    "byte_of (unat a * 65536 + unat b * 256 + unat c) 1 = b"
    "byte_of (unat a * 65536 + unat b * 256 + unat c) 0 = c"
    using bytes_of_group [OF x y z] by simp_all
  show ?case
    by (simp only: toString_base64.simps Let_def append.simps decode_group [OF n] bytes "4.IH"
        option.map)
qed

subsection \<open>Size of the serialised card\<close>

text \<open>
  Card fields of plain characters, in the order \<^verbatim>\<open>initiateCardTransaction\<close> builds them,
  serialise to 44 bytes plus their own lengths: up to 201 characters of card data fit
  the limit of a key of 2048 bits.
\<close>

lemma utf8_append: "utf8 (a @ b) = utf8 a @ utf8 b"
  by (simp add: utf8_def)

lemma plain_char_quote: "plain_char c \<Longrightarrow> quote_char c = [c]"
  by (auto simp add: plain_char_def quote_char_def)

lemma plain_char_utf8: "plain_char c \<Longrightarrow> length (utf8_char c) = 1"
  by (simp add: plain_char_def utf8_char_def)

lemma plain_concat_quote: "list_all plain_char s \<Longrightarrow> concat (map quote_char s) = s"
  by (induction s) (simp_all add: plain_char_quote)

lemma plain_utf8_length: "list_all plain_char s \<Longrightarrow> length (utf8 s) = length s"
  by (induction s) (simp_all add: utf8_def plain_char_utf8)

lemma plain_quote_length:
  "list_all plain_char s \<Longrightarrow> length (utf8 (quote s)) = length s + 2"
proof -
  assume s: "list_all plain_char s"
  have q: "length (utf8 [CHR 0x22]) = 1" by (simp add: utf8_def utf8_char_def)
  show ?thesis
    by (simp add: quote_def plain_concat_quote [OF s] utf8_append plain_utf8_length [OF s] q
        del: append.simps append_Cons)
qed

lemma card_fields_json_length:
  assumes "list_all plain_char cvv" and "list_all plain_char pin"
    and "list_all plain_char expiryDate" and "list_all plain_char pan"
  shows "\<exists>cardJson. JSON_stringify (JObj [(''cvv'', JStr cvv), (''pin'', JStr pin),
              (''expiryDate'', JStr expiryDate), (''pan'', JStr pan)]) = Some cardJson
           \<and> length (utf8 cardJson) = 44 + length cvv + length pin + length expiryDate + length pan"
proof -
  have k: "length (utf8 (quote ''cvv'')) = 5" "length (utf8 (quote ''pin'')) = 5"
    "length (utf8 (quote ''expiryDate'')) = 12" "length (utf8 (quote ''pan'')) = 5"
    by (simp_all add: quote_def quote_char_def utf8_def utf8_char_def)
  have p: "length (utf8 ''{'') = 1" "length (utf8 ''}'') = 1" "length (utf8 '':'') = 1" "length (utf8 '','') = 1"
    by (simp_all add: utf8_def utf8_char_def)
  show ?thesis
    using assms
    by (simp add: utf8_append k p plain_quote_length del: append.simps append_Cons)
qed

subsection \<open>The stand-in library and the sample inputs\<close>

lemma pkcs1_encode_contract: "pkcs1_v15 pkcs1_encode key 256"
  by (auto simp add: pkcs1_v15_def pkcs1_encode_def pkcs1_pad_def)

lemma key_fs_generic: "key_fs (publicKeyPath generic_encryptor) = Some (Readable generic_pem)"
  by (simp add: key_fs_def generic_encryptor_def)

lemma key_fs_rsa: "key_fs (publicKeyPath rsa_encryptor) = Some (Readable rsa_marked_pem)"
  by (simp add: key_fs_def rsa_encryptor_def)

lemma visa_card_stringify: "JSON_stringify visa_card = Some visa_card_json"
  by (simp add: visa_card_def visa_card_json_def quote_def quote_char_def)

lemma visa_card_json_length: "length (utf8 visa_card_json) = 71"
  by (simp add: visa_card_json_def utf8_def utf8_char_def)

lemma card150_stringify: "JSON_stringify card150 = Some card150_json"
  by (simp add: card150_def card150_json_def pan150_def quote_def quote_char_def)

lemma card150_json_length: "length (utf8 card150_json) = 205"
  by (simp add: card150_json_def pan150_def utf8_def utf8_char_def)

lemma card210_stringify: "JSON_stringify card210 = Some card210_json"
  by (simp add: card210_def card210_json_def pan210_def pan150_def quote_def quote_char_def)

lemma card210_json_length: "length (utf8 card210_json) = 265"
  by (simp add: card210_json_def pan210_def pan150_def utf8_def utf8_char_def)

lemma partial_card_stringify: "JSON_stringify partial_card = Some partial_card_json"
  by (simp add: partial_card_def partial_card_json_def quote_def quote_char_def)

lemma partial_card_json_length: "length (utf8 partial_card_json) = 42"
  by (simp add: partial_card_json_def utf8_def utf8_char_def)

lemma encrypt_with_readable_key:
  assumes "fs (publicKeyPath this) = Some (Readable txt)"
    and "JSON_stringify cardParams = Some cardJson"
  shows "encrypt fs pe this cardParams
           = (case pe (trim (replace txt ''RSA'' '''')) RSA_PKCS1_PADDING (utf8 cardJson) of
                Inl m \<Rightarrow> Inl (Error (''Encryption failed: '' @ m))
              | Inr c \<Rightarrow> Inr (toString_base64 c))"
  using assms by (simp add: encrypt_def readFileSync_def Buffer_from_def)

subsection \<open>Construction\<close>

text \<open>
  C9. Constructing a \<^verbatim>\<open>CardEncryptor\<close> with a path for which \<^verbatim>\<open>fs.existsSync\<close> is
  false fails with the key-not-found error (\<^verbatim>\<open>Public key file not found: <path>\<close>).
  The failure comes before any encryption: constructing and then encrypting, as
  \<^verbatim>\<open>initiateCardTransaction\<close> does, gives the same error whatever the crypto primitive
  is. For every existing path construction succeeds and the object stores the path.
\<close>

theorem CardEncryptor_constructor_checks_path:
  "(fs path = None \<longrightarrow>
      CardEncryptor_constructor fs path = Inl (Error (''Public key file not found: '' @ path))
      \<and> and_then (CardEncryptor_constructor fs path) (\<lambda>encryptor. encrypt fs pe encryptor cardParams)
          = Inl (Error (''Public key file not found: '' @ path)))
   \<and> (fs path \<noteq> None \<longrightarrow>
      CardEncryptor_constructor fs path = Inr \<lparr>publicKeyPath = path\<rparr>)"
  by (simp add: CardEncryptor_constructor_def existsSync_def and_then_def)

theorem CardEncryptor_constructor_checks_path_witness:
  "key_fs ''/app/missing.pem'' = None
   \<and> CardEncryptor_constructor key_fs ''/app/missing.pem''
       = Inl (Error (''Public key file not found: '' @ ''/app/missing.pem''))
   \<and> and_then (CardEncryptor_constructor key_fs ''/app/missing.pem'')
        (\<lambda>encryptor. encrypt key_fs pkcs1_encode encryptor visa_card)
       = Inl (Error (''Public key file not found: '' @ ''/app/missing.pem''))
   \<and> key_fs ''/app/key/rsa_public_key.pub'' \<noteq> None
   \<and> CardEncryptor_constructor key_fs ''/app/key/rsa_public_key.pub''
       = Inr \<lparr>publicKeyPath = ''/app/key/rsa_public_key.pub''\<rparr>"
proof -
  have absent: "key_fs ''/app/missing.pem'' = None" by (simp add: key_fs_def)
  have present: "key_fs ''/app/key/rsa_public_key.pub'' \<noteq> None" by (simp add: key_fs_def)
  show ?thesis
    using absent present
      CardEncryptor_constructor_checks_path [of key_fs "''/app/missing.pem''" pkcs1_encode visa_card]
      CardEncryptor_constructor_checks_path [of key_fs "''/app/key/rsa_public_key.pub''" pkcs1_encode visa_card]
    by blast
qed

subsection \<open>Encryption\<close>

text \<open>
  Whenever the library accepts the key text it is handed as a key with a modulus of
  256 bytes, and the serialised card fits the PKCS#1 v1.5 limit, \<^verbatim>\<open>encrypt\<close> returns the
  base64 encoding of the ciphertext the library computes, under \<^verbatim>\<open>RSA_PKCS1_PADDING\<close>,
  from the UTF-8 bytes of \<^verbatim>\<open>JSON.stringify(cardParams)\<close>: 344 characters of
  \<^verbatim>\<open>[A-Za-z0-9+/=]\<close> that decode to the ciphertext.
\<close>

lemma encrypt_base64_of_ciphertext:
  assumes "fs (publicKeyPath this) = Some (Readable txt)"
    and "pkcs1_v15 pe (trim (replace txt ''RSA'' '''')) 256"
    and "JSON_stringify cardParams = Some cardJson"
    and "length (utf8 cardJson) + 11 \<le> 256"
  shows "\<exists>c. pe (trim (replace txt ''RSA'' '''')) RSA_PKCS1_PADDING (utf8 cardJson) = Inr c
           \<and> encrypt fs pe this cardParams = Inr (toString_base64 c)
           \<and> length (toString_base64 c) = 344
           \<and> toString_base64 c \<noteq> []
           \<and> (\<forall>ch \<in> set (toString_base64 c). is_base64_char ch)
           \<and> base64_decode (toString_base64 c) = Some c"
proof -
  from assms(2,4) obtain c
    where c: "pe (trim (replace txt ''RSA'' '''')) RSA_PKCS1_PADDING (utf8 cardJson) = Inr c"
      and len: "length c = 256"
    unfolding pkcs1_v15_def by blast
  have enc: "encrypt fs pe this cardParams = Inr (toString_base64 c)"
    by (simp add: encrypt_with_readable_key [where fs = fs and this = this, OF assms(1,3)] c)
  have l: "length (toString_base64 c) = 344"
    by (simp add: length_toString_base64 len)
  then have ne: "toString_base64 c \<noteq> []" by auto
  show ?thesis using c enc l ne toString_base64_chars base64_round_trip by blast
qed

text \<open>
  C4, as stated, puts the limit for a key of 2048 bits at 190 bytes. The card below
  serialises to 205 bytes, and with the stand-in library (which keeps the PKCS#1 v1.5
  limit of 256 - 11 = 245 bytes) \<^verbatim>\<open>encrypt\<close> returns a ciphertext.
\<close>

theorem encrypt_accepts_205_bytes:
  "JSON_stringify card150 = Some card150_json
   \<and> 190 < length (utf8 card150_json)
   \<and> encrypt key_fs pkcs1_encode generic_encryptor card150
       = Inr (toString_base64 (pkcs1_pad (utf8 card150_json)))"
  by (simp add: encrypt_with_readable_key [where fs = key_fs and this = generic_encryptor, OF key_fs_generic card150_stringify]
      card150_stringify card150_json_length pkcs1_encode_def)

text \<open>
  C4, amended. For a key the library accepts with a modulus of \<open>k\<close> bytes, a card whose
  JSON serialisation is longer than \<open>k - 11\<close> bytes (245 for a key of 2048 bits) makes
  \<^verbatim>\<open>encrypt\<close> fail with \<^verbatim>\<open>Encryption failed: \<close> followed by the library's message; no
  ciphertext, truncated or not, is returned.
\<close>

theorem encrypt_rejects_oversized_payload:
  assumes "fs (publicKeyPath this) = Some (Readable txt)"
    and "pkcs1_v15 pe (trim (replace txt ''RSA'' '''')) k"
    and "JSON_stringify cardParams = Some cardJson"
    and "k < length (utf8 cardJson) + 11"
  shows "\<exists>m. pe (trim (replace txt ''RSA'' '''')) RSA_PKCS1_PADDING (utf8 cardJson) = Inl m
           \<and> encrypt fs pe this cardParams = Inl (Error (''Encryption failed: '' @ m))"
proof -
  from assms(2,4) obtain m
    where m: "pe (trim (replace txt ''RSA'' '''')) RSA_PKCS1_PADDING (utf8 cardJson) = Inl m"
    unfolding pkcs1_v15_def by blast
  have "encrypt fs pe this cardParams = Inl (Error (''Encryption failed: '' @ m))"
    by (simp add: encrypt_with_readable_key [where fs = fs and this = this, OF assms(1,3)] m)
  with m show ?thesis by blast
qed

theorem encrypt_rejects_oversized_payload_witness:
  "key_fs (publicKeyPath generic_encryptor) = Some (Readable generic_pem)
   \<and> pkcs1_v15 pkcs1_encode (trim (replace generic_pem ''RSA'' '''')) 256
   \<and> JSON_stringify card210 = Some card210_json
   \<and> 256 < length (utf8 card210_json) + 11
   \<and> encrypt key_fs pkcs1_encode generic_encryptor card210
       = Inl (Error (''Encryption failed: '' @ ''data too large for key size''))"
proof -
  have h2: "pkcs1_v15 pkcs1_encode (trim (replace generic_pem ''RSA'' '''')) 256"
    by (rule pkcs1_encode_contract)
  have big: "256 < length (utf8 card210_json) + 11" by (simp add: card210_json_length)
  from encrypt_rejects_oversized_payload [where fs = key_fs and this = generic_encryptor
      and pe = pkcs1_encode, OF key_fs_generic h2 card210_stringify big]
  obtain m where m: "pkcs1_encode (trim (replace generic_pem ''RSA'' '''')) RSA_PKCS1_PADDING
        (utf8 card210_json) = Inl m"
    and e: "encrypt key_fs pkcs1_encode generic_encryptor card210
        = Inl (Error (''Encryption failed: '' @ m))"
    by blast
  have "m = ''data too large for key size''"
    using m big by (simp add: pkcs1_encode_def)
  with e have "encrypt key_fs pkcs1_encode generic_encryptor card210
       = Inl (Error (''Encryption failed: '' @ ''data too large for key size''))"
    by simp
  then show ?thesis using key_fs_generic h2 card210_stringify big by blast
qed

subsection \<open>Absent and empty card fields\<close>

lemma stringify_members_append:
  "stringify_members (xs @ ys) = stringify_members xs @ stringify_members ys"
  by (induction xs) (auto split: option.splits)

lemma stringify_members_skips_undefined:
  "stringify_members (xs @ (k, JUndefined) # ys) = stringify_members (xs @ ys)"
  by (simp add: stringify_members_append)

text \<open>
  C2, as stated, fails: the card below has no PIN (its value is \<^verbatim>\<open>undefined\<close>) and an
  empty PAN, and \<^verbatim>\<open>encrypt\<close> returns the ciphertext of the JSON text without the PIN.
\<close>

theorem encrypt_accepts_partial_card:
  "encrypt key_fs pkcs1_encode generic_encryptor partial_card
     = Inr (toString_base64 (pkcs1_pad (utf8 partial_card_json)))"
  by (simp add: encrypt_with_readable_key [where fs = key_fs and this = generic_encryptor,
        OF key_fs_generic partial_card_stringify]
      pkcs1_encode_def partial_card_json_length)

text \<open>
  C2, amended. \<^verbatim>\<open>encrypt\<close> does not look at the card fields: whenever the key file can
  be read and the library returns a ciphertext for the serialised object, \<^verbatim>\<open>encrypt\<close>
  returns its base64 text, whichever fields are absent or empty. In the serialisation
  a property whose value is \<^verbatim>\<open>undefined\<close> is left out and an empty string is written
  as two quotation marks.
\<close>

theorem encrypt_does_not_validate_card_fields:
  assumes "fs (publicKeyPath this) = Some (Readable txt)"
    and "pe (trim (replace txt ''RSA'' '''')) RSA_PKCS1_PADDING
           (utf8 (''{'' @ join_comma (stringify_members kvs) @ ''}'')) = Inr c"
  shows "encrypt fs pe this (JObj kvs) = Inr (toString_base64 c)
         \<and> stringify_members (xs @ (k, JUndefined) # ys) = stringify_members (xs @ ys)
         \<and> JSON_stringify (JStr '''') = Some [CHR 0x22, CHR 0x22]"
  using assms
  by (simp add: encrypt_def readFileSync_def Buffer_from_def stringify_members_skips_undefined quote_def)

theorem encrypt_does_not_validate_card_fields_witness:
  "key_fs (publicKeyPath generic_encryptor) = Some (Readable generic_pem)
   \<and> pkcs1_encode (trim (replace generic_pem ''RSA'' '''')) RSA_PKCS1_PADDING
        (utf8 (''{'' @ join_comma (stringify_members
           [(''cvv'', JStr ''123''), (''pin'', JUndefined), (''expiryDate'', JStr ''1225''), (''pan'', JStr '''')]) @ ''}''))
       = Inr (pkcs1_pad (utf8 partial_card_json))
   \<and> encrypt key_fs pkcs1_encode generic_encryptor
        (JObj [(''cvv'', JStr ''123''), (''pin'', JUndefined), (''expiryDate'', JStr ''1225''), (''pan'', JStr '''')])
       = Inr (toString_base64 (pkcs1_pad (utf8 partial_card_json)))
   \<and> stringify_members ([(''cvv'', JStr ''123'')] @ (''pin'', JUndefined) # [(''pan'', JStr '''')])
       = stringify_members ([(''cvv'', JStr ''123'')] @ [(''pan'', JStr '''')])"
proof -
  have js: "''{'' @ join_comma (stringify_members
           [(''cvv'', JStr ''123''), (''pin'', JUndefined), (''expiryDate'', JStr ''1225''), (''pan'', JStr '''')]) @ ''}''
         = partial_card_json"
    by (simp add: partial_card_json_def quote_def quote_char_def)
  have h2: "pkcs1_encode (trim (replace generic_pem ''RSA'' '''')) RSA_PKCS1_PADDING
        (utf8 (''{'' @ join_comma (stringify_members
           [(''cvv'', JStr ''123''), (''pin'', JUndefined), (''expiryDate'', JStr ''1225''), (''pan'', JStr '''')]) @ ''}''))
       = Inr (pkcs1_pad (utf8 partial_card_json))"
    unfolding js by (simp add: pkcs1_encode_def partial_card_json_length)
  from encrypt_does_not_validate_card_fields [where fs = key_fs and this = generic_encryptor
      and pe = pkcs1_encode and xs = "[(''cvv'', JStr ''123'')]" and k = "''pin''"
      and ys = "[(''pan'', JStr '''')]", OF key_fs_generic h2]
  show ?thesis using key_fs_generic h2 by blast
qed

text \<open>
  The card transaction of the README reaches that case: it passes the PIN as
  \<^verbatim>\<open>cardPin\<close>, the method reads \<^verbatim>\<open>pin\<close>, and the payload sent is the ciphertext of a card
  without PIN.
\<close>

lemma toLowerCase_POST: "toLowerCase ''POST'' = ''post''"
  by (simp add: toLowerCase_def to_lower_def)

lemma toLowerCase_GET: "toLowerCase ''GET'' = ''get''"
  by (simp add: toLowerCase_def to_lower_def)

lemma readme_card_encrypt:
  "encrypt key_fs pkcs1_encode \<lparr>publicKeyPath = ''/app/key/rsa_public_key.pub''\<rparr>
     (JObj [(''cvv'', JStr ''111''), (''pin'', JUndefined), (''expiryDate'', JStr ''122025''),
            (''pan'', JStr ''252435456456756756756787865'')])
   = Inr (toString_base64 (pkcs1_pad (utf8 readme_card_json)))"
proof -
  have len: "length (utf8 readme_card_json) = 71"
    by (simp add: readme_card_json_def utf8_def utf8_char_def)
  have js: "JSON_stringify (JObj [(''cvv'', JStr ''111''), (''pin'', JUndefined), (''expiryDate'', JStr ''122025''),
            (''pan'', JStr ''252435456456756756756787865'')]) = Some readme_card_json"
    by (simp add: readme_card_json_def quote_def quote_char_def)
  show ?thesis
    unfolding encrypt_def js
    by (simp add: readFileSync_def key_fs_def Buffer_from_def pkcs1_encode_def len)
qed

lemma sample_client_post:
  "requests (snd (makeRequest sample_client w ''/api/v1/payment/cards/initialize'' (JStr ''POST'') (JObj kvs)))
     = requests w @ [(''post'', ''/api/v1/payment/cards/initialize'', JObj kvs)]"
  by (simp add: makeRequest_def call_client_def Let_def toLowerCase_POST sample_client_def
      axios_create_def axios_verbs_def settle_def sample_network_def logger_def)

lemma requests_after_final_log:
  "requests (snd (case p of (Inl e, w3) \<Rightarrow> (Inl e, w3)
                   | (Inr r, w3) \<Rightarrow> (Inr r, logger l w3 m (j r))))
     = requests (snd p)"
  by (cases p) (auto simp add: logger_def split: sum.splits)

lemma initiateCardTransaction_README_example:
  "map (\<lambda>(verb, url, body). (verb, url, opt_chain body ''payload''))
       (requests (snd (initiateCardTransaction key_fs pkcs1_encode ''/app'' sample_client world0 readme_params)))
   = [(''post'', ''/api/v1/payment/cards/initialize'',
       JStr (toString_base64 (pkcs1_pad (utf8 readme_card_json))))]"
proof -
  have "\<exists>dto. PayerDeviceDto_fromRequest mapped_request = Inr dto"
    by (simp add: PayerDeviceDto_fromRequest_def Device_fromRequest_def mapped_request_def
        BrowserDetails_fromRequest_def and_then_def member_def js_or_def substr_def Let_def)
  then obtain dto where dto: "PayerDeviceDto_fromRequest mapped_request = Inr dto" by blast
  have ctor: "CardEncryptor_constructor key_fs ''/app/key/rsa_public_key.pub''
        = Inr \<lparr>publicKeyPath = ''/app/key/rsa_public_key.pub''\<rparr>"
    by (simp add: CardEncryptor_constructor_def existsSync_def key_fs_def)
  show ?thesis
    unfolding initiateCardTransaction_def
    by (simp add: readme_params_def dto ctor readme_card_encrypt Let_def and_then_def
        requests_after_final_log sample_client_post logger_def world0_def)
qed

subsection \<open>Key normalisation\<close>

lemma rsa_marked_pem_normalization:
  "trim (replace rsa_marked_pem ''RSA'' '''') = rsa_marked_pem_normalized"
  by (simp add: rsa_marked_pem_def rsa_marked_pem_normalized_def trim_def is_white_space_def)

text \<open>A text without the marker is only trimmed.\<close>

lemma replace_absent: "\<not> (\<exists>us vs. s = us @ pat @ vs) \<Longrightarrow> replace s pat rep = s"
proof (induction s)
  case Nil
  then show ?case by auto
next
  case (Cons c cs)
  have np: "\<not> prefix pat (c # cs)"
  proof
    assume "prefix pat (c # cs)"
    then obtain vs where "c # cs = pat @ vs" by (auto simp: prefix_def)
    then have "c # cs = [] @ pat @ vs" by simp
    with Cons.prems show False by blast
  qed
  have "\<not> (\<exists>us vs. cs = us @ pat @ vs)"
  proof
    assume "\<exists>us vs. cs = us @ pat @ vs"
    then obtain us vs where "cs = us @ pat @ vs" by blast
    then have "c # cs = (c # us) @ pat @ vs" by simp
    with Cons.prems show False by blast
  qed
  with Cons.IH np show ?case by simp
qed

lemma generic_pem_normalization:
  "trim (replace generic_pem ''RSA'' '''')
     = ''-----BEGIN PUBLIC KEY-----'' @ [CHR 0x0A]
       @ ''MIIBIjANBgkqhkiG9w0BAQEFAAOCAQ8AMIIBCgKCAQEAoLUWhs/7kVxZqJxJ1NEb'' @ [CHR 0x0A]
       @ ''-----END PUBLIC KEY-----''"
  by (simp add: generic_pem_def trim_def is_white_space_def)

text \<open>
  C3. The key file in the RSA-marked form is not brought to the generic form:
  \<^verbatim>\<open>replace('RSA', '')\<close> removes the first occurrence only, so the header keeps two
  spaces and the footer keeps its marker, and this is the text \<^verbatim>\<open>encrypt\<close> hands to the
  library, whatever the library and the card. A key in the generic form whose body
  contains the letters RSA loses them.
\<close>

theorem RSA_marked_key_not_normalized:
  "trim (replace rsa_marked_pem ''RSA'' '''') = rsa_marked_pem_normalized
   \<and> rsa_marked_pem_normalized \<noteq> rsa_marked_pem_generic_form
   \<and> encrypt key_fs pe rsa_encryptor (JObj kvs)
       = (case pe rsa_marked_pem_normalized RSA_PKCS1_PADDING
                (utf8 (''{'' @ join_comma (stringify_members kvs) @ ''}'')) of
            Inl m \<Rightarrow> Inl (Error (''Encryption failed: '' @ m))
          | Inr c \<Rightarrow> Inr (toString_base64 c))
   \<and> trim (replace generic_pem_RSA_in_body ''RSA'' '''')
       = ''-----BEGIN PUBLIC KEY-----'' @ [CHR 0x0A]
         @ ''MIIBIjANBgkqhkiG9w0BAQEFAAOCAQ8AMIIBCgKCAQEAoLUWhs/7kqJxJ1NEb'' @ [CHR 0x0A]
         @ ''-----END PUBLIC KEY-----''"
proof -
  have a: "rsa_marked_pem_normalized \<noteq> rsa_marked_pem_generic_form"
    by (simp add: rsa_marked_pem_normalized_def rsa_marked_pem_generic_form_def)
  have c: "encrypt key_fs pe rsa_encryptor (JObj kvs)
       = (case pe rsa_marked_pem_normalized RSA_PKCS1_PADDING
                (utf8 (''{'' @ join_comma (stringify_members kvs) @ ''}'')) of
            Inl m \<Rightarrow> Inl (Error (''Encryption failed: '' @ m))
          | Inr c \<Rightarrow> Inr (toString_base64 c))"
    by (simp add: encrypt_def readFileSync_def key_fs_rsa rsa_marked_pem_normalization Buffer_from_def)
  have d: "trim (replace generic_pem_RSA_in_body ''RSA'' '''')
       = ''-----BEGIN PUBLIC KEY-----'' @ [CHR 0x0A]
         @ ''MIIBIjANBgkqhkiG9w0BAQEFAAOCAQ8AMIIBCgKCAQEAoLUWhs/7kqJxJ1NEb'' @ [CHR 0x0A]
         @ ''-----END PUBLIC KEY-----''"
    by (simp add: generic_pem_RSA_in_body_def trim_def is_white_space_def)
  show ?thesis using rsa_marked_pem_normalization a c d by blast
qed

subsection \<open>Encryption with a valid key\<close>

text \<open>
  For a key file that does not contain the letters RSA the normalisation is harmless:
  if the library accepts the text of the file (white space around it aside) as a key of
  2048 bits, \<^verbatim>\<open>encrypt\<close> returns the base64 text of the ciphertext.
\<close>

lemma encrypt_with_unmarked_key:
  assumes "fs (publicKeyPath this) = Some (Readable txt)"
    and "\<not> (\<exists>us vs. txt = us @ ''RSA'' @ vs)"
    and "pkcs1_v15 pe (trim txt) 256"
    and "JSON_stringify cardParams = Some cardJson"
    and "length (utf8 cardJson) + 11 \<le> 256"
  shows "\<exists>c. pe (trim txt) RSA_PKCS1_PADDING (utf8 cardJson) = Inr c
           \<and> encrypt fs pe this cardParams = Inr (toString_base64 c)
           \<and> length (toString_base64 c) = 344
           \<and> toString_base64 c \<noteq> []
           \<and> (\<forall>ch \<in> set (toString_base64 c). is_base64_char ch)
           \<and> base64_decode (toString_base64 c) = Some c"
proof -
  have same: "replace txt ''RSA'' '''' = txt" by (rule replace_absent [OF assms(2)])
  have h: "pkcs1_v15 pe (trim (replace txt ''RSA'' '''')) 256" using assms(3) by (simp only: same)
  from encrypt_base64_of_ciphertext [where fs = fs and this = this, OF assms(1) h assms(4,5)]
  show ?thesis by (simp only: same)
qed

lemma pem_label_rsa_file: "pem_label test_key_rsa_pem = Some ''RSA PUBLIC KEY''"
  by (simp add: pem_label_def test_key_rsa_pem_def)

lemma pem_label_rsa_normalized:
  "pem_label (trim (replace test_key_rsa_pem ''RSA'' '''')) = None"
  by (simp add: pem_label_def test_key_rsa_pem_def trim_def is_white_space_def)

lemma pem_label_generic_normalized:
  "pem_label (trim (replace test_key_pem ''RSA'' '''')) = Some ''PUBLIC KEY''"
  by (simp add: pem_label_def test_key_pem_def trim_def is_white_space_def)

lemma pem_pkcs1_encode_contract:
  "pem_label key \<in> {Some ''PUBLIC KEY'', Some ''RSA PUBLIC KEY''} \<Longrightarrow> pkcs1_v15 pem_pkcs1_encode key 256"
  by (auto simp add: pkcs1_v15_def pem_pkcs1_encode_def pkcs1_pad_def)

lemma test_key_rsa_file_valid: "pkcs1_v15 pem_pkcs1_encode test_key_rsa_pem 256"
  by (rule pem_pkcs1_encode_contract) (simp add: pem_label_rsa_file)

text \<open>
  C1. The key of the test suite in the RSA-marked form is a valid key of 2048 bits, and
  the stand-in library accepts the file as it is. \<^verbatim>\<open>encrypt\<close> hands the library the
  text left by \<^verbatim>\<open>replace('RSA', '')\<close>, whose header and footer no longer agree, and fails
  with \<^verbatim>\<open>Encryption failed: ...\<close> where the claim promises the base64 text of a
  ciphertext. With the same key in the generic form it returns that text.
\<close>

theorem encrypt_fails_for_RSA_marked_key:
  "pem_pkcs1_encode test_key_rsa_pem RSA_PKCS1_PADDING (utf8 visa_card_json)
     = Inr (pkcs1_pad (utf8 visa_card_json))
   \<and> encrypt test_key_fs pem_pkcs1_encode \<lparr>publicKeyPath = ''/app/key/rsa_public_key.pub''\<rparr> visa_card
     = Inl (Error ''Encryption failed: error:1E08010C:DECODER routines::unsupported'')
   \<and> encrypt test_key_fs pem_pkcs1_encode \<lparr>publicKeyPath = ''/app/key/public_key.pem''\<rparr> visa_card
     = Inr (toString_base64 (pkcs1_pad (utf8 visa_card_json)))"
proof -
  have a: "pem_pkcs1_encode test_key_rsa_pem RSA_PKCS1_PADDING (utf8 visa_card_json)
     = Inr (pkcs1_pad (utf8 visa_card_json))"
    by (simp add: pem_pkcs1_encode_def pem_label_rsa_file visa_card_json_length)
  have f1: "test_key_fs (publicKeyPath \<lparr>publicKeyPath = ''/app/key/rsa_public_key.pub''\<rparr>)
      = Some (Readable test_key_rsa_pem)"
    by (simp add: test_key_fs_def)
  have f2: "test_key_fs (publicKeyPath \<lparr>publicKeyPath = ''/app/key/public_key.pem''\<rparr>)
      = Some (Readable test_key_pem)"
    by (simp add: test_key_fs_def)
  have b: "encrypt test_key_fs pem_pkcs1_encode \<lparr>publicKeyPath = ''/app/key/rsa_public_key.pub''\<rparr> visa_card
     = Inl (Error ''Encryption failed: error:1E08010C:DECODER routines::unsupported'')"
    by (simp add: encrypt_with_readable_key [where fs = test_key_fs, OF f1 visa_card_stringify]
        pem_pkcs1_encode_def pem_label_rsa_normalized)
  have c: "encrypt test_key_fs pem_pkcs1_encode \<lparr>publicKeyPath = ''/app/key/public_key.pem''\<rparr> visa_card
     = Inr (toString_base64 (pkcs1_pad (utf8 visa_card_json)))"
    by (simp add: encrypt_with_readable_key [where fs = test_key_fs, OF f2 visa_card_stringify]
        pem_pkcs1_encode_def pem_label_generic_normalized visa_card_json_length)
  show ?thesis using a b c by blast
qed

section \<open>Properties of the dispatch primitive\<close>

text \<open>
  C6. Called with a falsy verb (\<^verbatim>\<open>undefined\<close> and the empty string are the two a caller
  can pass for a string), \<^verbatim>\<open>#makeRequest\<close> fails with the error
  \<^verbatim>\<open>Method cannot be empty\<close> and hands no request to the HTTP client. This holds for
  the dispatch primitive of both copies of the client, for every client object.
\<close>

theorem makeRequest_rejects_empty_method:
  assumes "\<not> truthy method"
  shows "fst (makeRequest this w relativeUrl method body) = Inl (Error ''Method cannot be empty'')
         \<and> requests (snd (makeRequest this w relativeUrl method body)) = requests w
         \<and> fst (makeRequest_verifySsl this' w relativeUrl method body) = Inl (Error ''Method cannot be empty'')
         \<and> requests (snd (makeRequest_verifySsl this' w relativeUrl method body)) = requests w"
  using assms by (simp add: makeRequest_def makeRequest_verifySsl_def Let_def logger_def)

theorem makeRequest_rejects_empty_method_witness:
  "\<not> truthy JUndefined \<and> \<not> truthy (JStr '''')
   \<and> fst (makeRequest sample_client world0 ''/api/v1/payment/initiate'' JUndefined (JObj []))
       = Inl (Error ''Method cannot be empty'')
   \<and> requests (snd (makeRequest sample_client world0 ''/api/v1/payment/initiate'' JUndefined (JObj []))) = []
   \<and> fst (makeRequest_verifySsl sample_client_verifySsl world0 ''/api/v1/payment/initiate'' (JStr '''') (JObj []))
       = Inl (Error ''Method cannot be empty'')
   \<and> requests (snd (makeRequest_verifySsl sample_client_verifySsl world0 ''/api/v1/payment/initiate'' (JStr '''') (JObj []))) = []"
proof -
  have u: "\<not> truthy JUndefined" by simp
  have e: "\<not> truthy (JStr '''')" by simp
  have w: "requests world0 = []" by (simp add: world0_def)
  show ?thesis
    using u e w
      makeRequest_rejects_empty_method [OF u, of sample_client world0 "''/api/v1/payment/initiate''" "JObj []" sample_client_verifySsl]
      makeRequest_rejects_empty_method [OF e, of sample_client world0 "''/api/v1/payment/initiate''" "JObj []" sample_client_verifySsl]
    by simp
qed

subsection \<open>Error mapping\<close>

lemma call_client_axios:
  assumes "client this = Some (axios_create net cfg)" and "toLowerCase m \<in> set axios_verbs"
  shows "call_client this w relativeUrl (JStr m) body
           = (settle (transport net cfg (toLowerCase m) relativeUrl body),
              w\<lparr>requests := requests w @ [(toLowerCase m, relativeUrl, body)]\<rparr>)"
  using assms by (simp add: call_client_def axios_create_def)

text \<open>
  The dispatch primitive of \<^verbatim>\<open>src/unnamed/part_001\<close> does what C5 says: for a response
  with a status outside 200 to 299 the error carries the status and the body, and its
  message is the \<^verbatim>\<open>errorMessage\<close> of the body when that is truthy (a non-empty string,
  say), else the generic text with the path; without any response the error carries the
  status 500 and \<^verbatim>\<open>null\<close> as body.
\<close>

lemma makeRequest_maps_http_error:
  assumes "client this = Some (axios_create net cfg)" and "toLowerCase m \<in> set axios_verbs"
    and "m \<noteq> []"
    and "transport net cfg (toLowerCase m) relativeUrl (if d = JUndefined then JObj [] else d) = HttpResponse r"
    and "\<not> (200 \<le> resp_status r \<and> resp_status r < 300)"
  shows "fst (makeRequest this w relativeUrl (JStr m) d)
           = Inl \<lparr>name = ''Error'',
                  message = (if truthy (opt_chain (resp_data r) ''errorMessage'')
                             then ToString (opt_chain (resp_data r) ''errorMessage'')
                             else ''An error occurred while calling the Ercaspay API on path: '' @ relativeUrl),
                  statusCode = JNum (resp_status r),
                  responseData = resp_data r\<rparr>"
  using assms
  by (simp add: makeRequest_def Let_def call_client_axios settle_def Error_def js_or_def)

lemma makeRequest_maps_transport_failure:
  assumes "client this = Some (axios_create net cfg)" and "toLowerCase m \<in> set axios_verbs"
    and "m \<noteq> []"
    and "transport net cfg (toLowerCase m) relativeUrl (if d = JUndefined then JObj [] else d) = NoResponse msg"
  shows "fst (makeRequest this w relativeUrl (JStr m) d)
           = Inl \<lparr>name = ''Error'',
                  message = (if msg \<noteq> [] then msg
                             else ''An unexpected error occurred while making the API request on path: '' @ relativeUrl),
                  statusCode = JNum 500,
                  responseData = JNull\<rparr>"
  using assms
  by (simp add: makeRequest_def Let_def call_client_axios settle_def Error_def js_or_def)

text \<open>
  A member the client object inherits as a function can be named as verb: with
  \<^verbatim>\<open>BIND\<close> the call returns a function, the \<^verbatim>\<open>await\<close> passes it on, and \<^verbatim>\<open>#makeRequest\<close>
  returns its \<^verbatim>\<open>data\<close>, which is \<^verbatim>\<open>undefined\<close>, without error.
\<close>

lemma toLowerCase_BIND: "toLowerCase ''BIND'' = ''bind''"
  by (simp add: toLowerCase_def to_lower_def)

lemma makeRequest_inherited_member:
  "fst (makeRequest sample_client world0 ''/api/v1/payment/initiate'' (JStr ''BIND'') JUndefined) = Inr JUndefined"
  by (simp add: makeRequest_def Let_def call_client_def toLowerCase_BIND sample_client_def
      axios_create_def axios_verbs_def sample_network_def)

text \<open>The dispatch primitive of \<^verbatim>\<open>src/unnamed/part_000\<close> attaches nothing to its errors.\<close>

lemma makeRequest_verifySsl_error_bare:
  "fst (makeRequest_verifySsl this w relativeUrl method d) = Inl e
     \<Longrightarrow> statusCode e = JUndefined \<and> responseData e = JUndefined"
  by (auto simp add: makeRequest_verifySsl_def Let_def Error_def member_def TypeError_def
      split: if_splits prod.splits outcome.splits option.splits sum.splits)

text \<open>
  C5. A 404 whose body has an \<^verbatim>\<open>errorMessage\<close>, and a request without response: the
  dispatch primitive of \<^verbatim>\<open>src/unnamed/part_000\<close> raises errors without status code and
  without response body, where the one of \<^verbatim>\<open>src/unnamed/part_001\<close> attaches 404 and the
  body, and 500 and \<^verbatim>\<open>null\<close>.
\<close>

theorem makeRequest_verifySsl_error_without_status:
  "fst (makeRequest_verifySsl sample_client_verifySsl world0 ''/api/v1/payment/transaction/verify/abc'' (JStr ''GET'') JUndefined)
     = Inl \<lparr>name = ''Error'', message = ''Invalid reference'', statusCode = JUndefined, responseData = JUndefined\<rparr>
   \<and> fst (makeRequest_verifySsl sample_client_verifySsl world0 ''/down'' (JStr ''GET'') JUndefined)
     = Inl \<lparr>name = ''Error'', message = ''connect ECONNREFUSED 127.0.0.1:443'', statusCode = JUndefined, responseData = JUndefined\<rparr>
   \<and> fst (makeRequest sample_client world0 ''/api/v1/payment/transaction/verify/abc'' (JStr ''GET'') JUndefined)
     = Inl \<lparr>name = ''Error'', message = ''Invalid reference'', statusCode = JNum 404,
            responseData = JObj [(''errorMessage'', JStr ''Invalid reference'')]\<rparr>
   \<and> fst (makeRequest sample_client world0 ''/down'' (JStr ''GET'') JUndefined)
     = Inl \<lparr>name = ''Error'', message = ''connect ECONNREFUSED 127.0.0.1:443'', statusCode = JNum 500, responseData = JNull\<rparr>"
  by (simp add: makeRequest_verifySsl_def makeRequest_def Let_def call_client_def toLowerCase_GET
      sample_client_verifySsl_def sample_client_def axios_create_def axios_verbs_def settle_def
      sample_network_def member_def js_or_def Error_def)

section \<open>Properties of the device record\<close>

lemma BrowserDetails_fromRequest_headers:
  "own_prop props ''headers'' = JObj hs \<Longrightarrow> \<exists>bd. BrowserDetails_fromRequest (JObj props) = Inr bd"
  by (simp add: BrowserDetails_fromRequest_def and_then_def member_def js_or_def)

lemma Device_fromRequest_string_ip:
  assumes "own_prop props ''headers'' = JObj hs" and "resolved_ip props hs = JStr s"
  shows "\<exists>bd. Device_fromRequest (JObj props)
           = Inr \<lparr>browser = js_or (own_prop hs ''user-agent'') (JStr ''Unknown''),
                  browserDetails = bd,
                  ipAddress = JStr (if take 7 s = ''::ffff:'' then drop 7 s else s)\<rparr>"
proof -
  from BrowserDetails_fromRequest_headers [OF assms(1)]
  obtain bd where bd: "BrowserDetails_fromRequest (JObj props) = Inr bd" by blast
  have ip: "(if truthy (own_prop props ''ip'') then Inr (own_prop props ''ip'')
             else and_then (member (JObj props) ''headers'') (\<lambda>h.
                  and_then (member h ''x-forwarded-for'') (\<lambda>xff.
                    Inr (js_or xff (JStr ''127.0.0.1''))))) = (Inr (JStr s) :: js_error + jsval)"
    using assms by (simp add: resolved_ip_def and_then_def member_def split: if_splits)
  show ?thesis
    unfolding Device_fromRequest_def
    by (simp add: ip assms(1) bd substr_def Device_constructor_def Let_def and_then_def member_def)
qed

text \<open>
  The copy of \<^verbatim>\<open>Device.fromRequest\<close> at lines 72 to 84 of \<^verbatim>\<open>src/unnamed/part_005\<close> does
  what C7 and C8 say, for every request with a headers object whose address is a string.
\<close>

lemma Device_fromRequest_strips_prefix:
  assumes "own_prop props ''headers'' = JObj hs"
    and "resolved_ip props hs = JStr (''::ffff:'' @ rest)"
  shows "\<exists>d. Device_fromRequest (JObj props) = Inr d \<and> ipAddress d = JStr rest"
  using Device_fromRequest_string_ip [OF assms] by auto

lemma Device_fromRequest_never_null:
  assumes "own_prop props ''headers'' = JObj hs" and "resolved_ip props hs = JStr s"
  shows "\<exists>d. Device_fromRequest (JObj props) = Inr d
           \<and> \<not> nullish (ipAddress d) \<and> \<not> nullish (browser d)"
proof -
  have "\<not> nullish (js_or (own_prop hs ''user-agent'') (JStr ''Unknown''))"
    by (cases "own_prop hs ''user-agent''") (simp_all add: js_or_def)
  with Device_fromRequest_string_ip [OF assms] show ?thesis by auto
qed

lemma Device_fromRequest_remoteAddress_browser:
  "Device_fromRequest_remoteAddress request = Inr d \<Longrightarrow> browser d = JUndefined"
  by (auto simp add: Device_fromRequest_remoteAddress_def and_then_def Let_def Device_constructor_def
      split: sum.splits if_splits)

text \<open>
  C7. For a request whose address is \<^verbatim>\<open>::ffff:203.0.113.5\<close>, the copy of
  \<^verbatim>\<open>Device.fromRequest\<close> at lines 107 to 113 of \<^verbatim>\<open>src/unnamed/part_005\<close> keeps the
  prefix, where the copy at lines 72 to 84 yields \<^verbatim>\<open>203.0.113.5\<close>.
\<close>

theorem Device_fromRequest_remoteAddress_keeps_prefix:
  "Device_fromRequest_remoteAddress mapped_request
     = Inr \<lparr>browser = JUndefined, browserDetails = default_BrowserDetails,
            ipAddress = JStr ''::ffff:203.0.113.5''\<rparr>
   \<and> Device_fromRequest mapped_request
     = Inr \<lparr>browser = JStr ''Mozilla/5.0'', browserDetails = default_BrowserDetails,
            ipAddress = JStr ''203.0.113.5''\<rparr>"
  by (simp add: Device_fromRequest_remoteAddress_def Device_fromRequest_def mapped_request_def
      BrowserDetails_fromRequest_acceptLanguage_def BrowserDetails_fromRequest_def
      default_BrowserDetails_def Device_constructor_def js_or_def substr_def Let_def
      and_then_def member_def)

text \<open>
  C8. For a request without address and without \<^verbatim>\<open>user-agent\<close> header, the copy of
  \<^verbatim>\<open>Device.fromRequest\<close> at lines 107 to 113 of \<^verbatim>\<open>src/unnamed/part_005\<close> yields a device
  whose browser is \<^verbatim>\<open>undefined\<close>: it computes \<^verbatim>\<open>userAgent\<close> with the fallback and passes it
  under that name to a constructor that reads \<^verbatim>\<open>browser\<close>. The copy at lines 72 to 84
  yields \<^verbatim>\<open>Unknown\<close>.
\<close>

theorem Device_fromRequest_remoteAddress_browser_undefined:
  "Device_fromRequest_remoteAddress bare_request
     = Inr \<lparr>browser = JUndefined, browserDetails = default_BrowserDetails,
            ipAddress = JStr ''127.0.0.1''\<rparr>
   \<and> Device_fromRequest bare_request
     = Inr \<lparr>browser = JStr ''Unknown'', browserDetails = default_BrowserDetails,
            ipAddress = JStr ''127.0.0.1''\<rparr>"
  by (simp add: Device_fromRequest_remoteAddress_def Device_fromRequest_def bare_request_def
      BrowserDetails_fromRequest_acceptLanguage_def BrowserDetails_fromRequest_def
      default_BrowserDetails_def Device_constructor_def js_or_def substr_def Let_def
      and_then_def member_def)

section \<open>Properties of the client constructor\<close>

lemma ErcasPay_constructor_sample:
  "fst (ErcasPay_constructor sample_network world0 sample_config) = Inr sample_client"
  by (simp add: ErcasPay_constructor_def initializeClient_def Let_def sample_config_def
      sample_client_def sample_axios_config_def)

text \<open>
  C10. In the client that accepts \<^verbatim>\<open>verifySsl\<close>, construction with \<^verbatim>\<open>verifySsl: false\<close>
  throws \<^verbatim>\<open>ReferenceError: https is not defined\<close>, since the file never binds \<^verbatim>\<open>https\<close>;
  with \<^verbatim>\<open>true\<close> or without the option it succeeds, with the default agent. Hence every
  client object the constructor returns has a truthy \<^verbatim>\<open>verifySsl\<close>.
\<close>

theorem verifySsl_false_throws_in_constructor:
  "fst (ErcasPay_constructor_verifySsl net w (cfg\<lparr>config_verifySsl := JBool False\<rparr>))
     = Inl (ReferenceError ''https is not defined'')
   \<and> fst (ErcasPay_constructor_verifySsl net w (cfg\<lparr>config_verifySsl := JBool True\<rparr>))
     = Inr \<lparr>baseURL = config_baseURL cfg, secretKey = config_secretKey cfg,
            client = Some (axios_create net \<lparr>axios_baseURL = config_baseURL cfg,
                       axios_headers = default_headers (config_secretKey cfg), axios_httpsAgent = None\<rparr>),
            verifySsl = JBool True\<rparr>
   \<and> fst (ErcasPay_constructor_verifySsl net w (cfg\<lparr>config_verifySsl := JUndefined\<rparr>))
     = Inr \<lparr>baseURL = config_baseURL cfg, secretKey = config_secretKey cfg,
            client = Some (axios_create net \<lparr>axios_baseURL = config_baseURL cfg,
                       axios_headers = default_headers (config_secretKey cfg), axios_httpsAgent = None\<rparr>),
            verifySsl = JBool True\<rparr>
   \<and> (\<forall>this. fst (ErcasPay_constructor_verifySsl net w cfg) = Inr this \<longrightarrow> truthy (verifySsl this))"
  by (auto simp add: ErcasPay_constructor_verifySsl_def initializeClient_verifySsl_def Let_def
      resolve_identifier_def module_bindings_def and_then_def split: sum.splits if_splits)

theorem verifySsl_false_throws_in_constructor_witness:
  "fst (ErcasPay_constructor_verifySsl sample_network world0 sample_config) = Inr sample_client_verifySsl
   \<and> truthy (verifySsl sample_client_verifySsl)
   \<and> fst (ErcasPay_constructor_verifySsl sample_network world0 (sample_config\<lparr>config_verifySsl := JBool False\<rparr>))
       = Inl (ReferenceError ''https is not defined'')"
proof -
  have c: "fst (ErcasPay_constructor_verifySsl sample_network world0 sample_config) = Inr sample_client_verifySsl"
    by (simp add: ErcasPay_constructor_verifySsl_def initializeClient_verifySsl_def Let_def sample_config_def
        sample_client_verifySsl_def sample_axios_config_def)
  from verifySsl_false_throws_in_constructor [of sample_network world0 sample_config] c
  show ?thesis by blast
qed

end
